theory Spec2Isabelle
  imports Main "HOL-Library.Multiset"
begin

section \<open>Shared vocabulary\<close>

text \<open>
  The repository holds several near-duplicate frontends. Three components carry the
  conversation logic:
  \<^item> \<^verbatim>\<open>HistoryPage\<close> (\<^verbatim>\<open>fetchConversations\<close>), the history reconstructor;
  \<^item> \<^verbatim>\<open>ChatPage\<close> of the file-based frontend (\<^verbatim>\<open>handleSendMessage\<close>,
    \<^verbatim>\<open>handleFileChange\<close>, \<^verbatim>\<open>loadExistingConversation\<close>, \<^verbatim>\<open>initializeConversation\<close>);
  \<^item> \<^verbatim>\<open>ChatPage\<close> of the assistant frontend (\<^verbatim>\<open>handleSubmit\<close>), whose state fields
    carry the prefix \<open>a_\<close> here where a name is already taken.

  A React component is modelled by a record of its state variables. A handler is a
  closure of one render: the state variables it reads are constants, the values of
  that render, and a setter does not change them. So every handler takes two
  records: \<open>c\<close>, the render it was created in, from which plain reads are taken, and
  \<open>s\<close>, the state current when it runs, on which its updates act; a functional update
  such as \<^verbatim>\<open>setMessages((prev) => [...prev, m])\<close> reads \<open>s\<close>. A handler invoked from
  the latest render has \<open>c = s\<close>. An \<^verbatim>\<open>async\<close> handler is cut at each \<^verbatim>\<open>await\<close>: the
  part before it is one function, and the continuation is another one, which gets
  the outcome of the backend call. The values of \<^verbatim>\<open>Date.now()\<close>, \<^verbatim>\<open>new Date()\<close> and
  \<^verbatim>\<open>Math.random()\<close> are inputs.
\<close>

datatype 'a reply = Ok 'a | Failed

datatype role = User | Assistant

text \<open>\<^verbatim>\<open>new Date()\<close> read at clock value \<open>n\<close>, or \<^verbatim>\<open>new Date(str)\<close>.\<close>

datatype instant = Clock nat | DateOf string

text \<open>
  The message identifiers the components build:
  \<^verbatim>\<open>Date.now().toString()\<close>, \<^verbatim>\<open>Date.now().toString() + k\<close> (string concatenation),
  \<^verbatim>\<open>`response-${Date.now()}`\<close>, \<^verbatim>\<open>`user-${Date.now()}-${Math.random()}`\<close>,
  \<^verbatim>\<open>`assistant-${Date.now()}-${Math.random()}`\<close>, \<^verbatim>\<open>"welcome"\<close>, \<^verbatim>\<open>"welcome-back"\<close>.
  A sample of \<^verbatim>\<open>Math.random()\<close> is represented by a number naming it.
\<close>

datatype ident =
    NowId nat
  | NowIdPlus nat nat
  | ResponseId nat
  | UserId nat nat
  | AssistantId nat nat
  | WelcomeId
  | WelcomeBackId

record Message =
  msg_id :: ident
  msg_role :: role
  content :: string
  timestamp :: instant

text \<open>
  JavaScript truthiness of a string that may be \<^verbatim>\<open>null\<close>/\<^verbatim>\<open>undefined\<close>: the empty
  string and \<^verbatim>\<open>null\<close> are falsy.
\<close>

definition falsy :: "string option \<Rightarrow> bool" where
  "falsy x = (case x of None \<Rightarrow> True | Some v \<Rightarrow> v = [])"

text \<open>
  A string is the list of the bytes of its UTF-8 encoding. \<^verbatim>\<open>String.prototype.trim\<close>
  removes white space and line terminators from both ends: U+0009 to U+000D, U+0020,
  U+00A0, U+1680, U+2000 to U+200A, U+2028, U+2029, U+202F, U+205F, U+3000 and
  U+FEFF. These are their encodings.
\<close>

definition white_space :: "string list" where
  "white_space =
     [[CHR 0x09], [CHR 0x0A], [CHR 0x0B], [CHR 0x0C], [CHR 0x0D], [CHR 0x20],
      [CHR 0xC2, CHR 0xA0],
      [CHR 0xE1, CHR 0x9A, CHR 0x80],
      [CHR 0xE2, CHR 0x80, CHR 0x80], [CHR 0xE2, CHR 0x80, CHR 0x81],
      [CHR 0xE2, CHR 0x80, CHR 0x82], [CHR 0xE2, CHR 0x80, CHR 0x83],
      [CHR 0xE2, CHR 0x80, CHR 0x84], [CHR 0xE2, CHR 0x80, CHR 0x85],
      [CHR 0xE2, CHR 0x80, CHR 0x86], [CHR 0xE2, CHR 0x80, CHR 0x87],
      [CHR 0xE2, CHR 0x80, CHR 0x88], [CHR 0xE2, CHR 0x80, CHR 0x89],
      [CHR 0xE2, CHR 0x80, CHR 0x8A],
      [CHR 0xE2, CHR 0x80, CHR 0xA8], [CHR 0xE2, CHR 0x80, CHR 0xA9],
      [CHR 0xE2, CHR 0x80, CHR 0xAF],
      [CHR 0xE2, CHR 0x81, CHR 0x9F],
      [CHR 0xE3, CHR 0x80, CHR 0x80],
      [CHR 0xEF, CHR 0xBB, CHR 0xBF]]"

text \<open>\<open>strip ws t\<close> removes from the front of \<open>t\<close> every leading occurrence of a member of \<open>ws\<close>.\<close>

function strip :: "string list \<Rightarrow> string \<Rightarrow> string" where
  "strip ws t =
     (case find (\<lambda>w. w \<noteq> [] \<and> take (length w) t = w) ws of
        None \<Rightarrow> t
      | Some w \<Rightarrow> strip ws (drop (length w) t))"
  by pat_completeness auto
termination
proof (relation "measure (\<lambda>(ws, t). length t)")
  show "wf (measure (\<lambda>(ws, t). length t))" by simp
next
  fix ws :: "string list" and t w :: string
  assume "find (\<lambda>w. w \<noteq> [] \<and> take (length w) t = w) ws = Some w"
  then have w: "w \<noteq> []" "take (length w) t = w"
    by (auto simp: find_Some_iff)
  from w(2) have "length (take (length w) t) = length w"
    by simp
  then have "length w \<le> length t"
    by simp
  with w(1) show "((ws, drop (length w) t), (ws, t)) \<in> measure (\<lambda>(ws, t). length t)"
    by (cases w) auto
qed

declare strip.simps [simp del]

text \<open>
  The end of a string is stripped on its reversal; a byte sequence of \<open>white_space\<close>
  at the end of a well-formed UTF-8 string is a whole character.
\<close>

definition trim :: "string \<Rightarrow> string" where
  "trim t = rev (strip (map rev white_space) (rev (strip white_space t)))"

section \<open>History reconstructor: \<^verbatim>\<open>HistoryPage.fetchConversations\<close>\<close>

record HistoryItem =
  question :: string
  response :: string
  item_timestamp :: string
  item_conversation_id :: string
  item_file_id :: string

text \<open>An element of the list \<^verbatim>\<open>getUserConversations\<close> resolves to.\<close>

record ConversationHeader =
  hdr_conversation_id :: string
  hdr_started_at :: string

text \<open>
  \<^verbatim>\<open>conversationsMap\<close> is a plain object \<^verbatim>\<open>{}\<close> used as a dictionary. Reading a
  property of it gives the array stored under that key, or, for a key the object
  does not own, what it inherits from \<^verbatim>\<open>Object.prototype\<close> under that name (a function
  or, for \<^verbatim>\<open>__proto__\<close>, the prototype itself), or \<^verbatim>\<open>undefined\<close>. Arrays, functions and
  objects are truthy.
\<close>

datatype property = Items "HistoryItem list" | Inherited string

definition inherited :: "string list" where
  "inherited =
     [''constructor'', ''__proto__'', ''hasOwnProperty'', ''isPrototypeOf'',
      ''propertyIsEnumerable'', ''toLocaleString'', ''toString'', ''valueOf'',
      ''__defineGetter__'', ''__defineSetter__'', ''__lookupGetter__'', ''__lookupSetter__'']"

text \<open>The map holds the object's own properties; \<open>None\<close> is \<^verbatim>\<open>undefined\<close>.\<close>

definition get_property :: "(string \<rightharpoonup> HistoryItem list) \<Rightarrow> string \<Rightarrow> property option" where
  "get_property m k =
     (case m k of
        Some xs \<Rightarrow> Some (Items xs)
      | None \<Rightarrow> if k \<in> set inherited then Some (Inherited k) else None)"

record Conversation =
  conversation_id :: string
  started_at :: string
  conv_messages :: property
  expanded :: bool

record HistoryPage =
  conversations :: "Conversation list"
  h_isLoading :: bool
  h_toasts :: "(string \<times> string) list"

datatype js_error = TypeError

text \<open>
  The body of \<^verbatim>\<open>historyData.forEach\<close>: an empty array is stored when the property
  reads falsy, then \<^verbatim>\<open>push\<close> is called on what the property reads. An inherited
  function or object has no \<^verbatim>\<open>push\<close>, so the call throws a \<^verbatim>\<open>TypeError\<close>.
\<close>

definition push_item ::
  "HistoryItem \<Rightarrow> (string \<rightharpoonup> HistoryItem list) \<Rightarrow> js_error + (string \<rightharpoonup> HistoryItem list)" where
  "push_item item m =
     (let k = item_conversation_id item;
          m1 = (if get_property m k = None then m(k \<mapsto> []) else m)
      in case get_property m1 k of
           Some (Items xs) \<Rightarrow> Inr (m1(k \<mapsto> xs @ [item]))
         | Some (Inherited n) \<Rightarrow> Inl TypeError
         | None \<Rightarrow> Inl TypeError)"

text \<open>\<^verbatim>\<open>forEach\<close> stops at the first exception.\<close>

fun forEach_push ::
  "HistoryItem list \<Rightarrow> (string \<rightharpoonup> HistoryItem list) \<Rightarrow> js_error + (string \<rightharpoonup> HistoryItem list)" where
  "forEach_push [] m = Inr m"
| "forEach_push (item # items) m =
     (case push_item item m of Inl e \<Rightarrow> Inl e | Inr m1 \<Rightarrow> forEach_push items m1)"

definition conversationsMap :: "HistoryItem list \<Rightarrow> js_error + (string \<rightharpoonup> HistoryItem list)" where
  "conversationsMap historyData = forEach_push historyData Map.empty"

text \<open>\<^verbatim>\<open>conversationsMap[id] || []\<close>: only \<^verbatim>\<open>undefined\<close> is replaced by the empty array.\<close>

definition lookup_or_empty :: "(string \<rightharpoonup> HistoryItem list) \<Rightarrow> string \<Rightarrow> property" where
  "lookup_or_empty m k = (case get_property m k of Some v \<Rightarrow> v | None \<Rightarrow> Items [])"

definition conversationsWithMessages ::
  "ConversationHeader list \<Rightarrow> (string \<rightharpoonup> HistoryItem list) \<Rightarrow> Conversation list" where
  "conversationsWithMessages conversationsData m =
     map (\<lambda>conv. \<lparr>conversation_id = hdr_conversation_id conv,
                  started_at = hdr_started_at conv,
                  conv_messages = lookup_or_empty m (hdr_conversation_id conv),
                  expanded = False\<rparr>)
         conversationsData"

text \<open>
  The comparator given to \<^verbatim>\<open>sort\<close>. \<open>getTime str\<close> stands for
  \<^verbatim>\<open>new Date(str).getTime()\<close>, with \<open>None\<close> for the \<^verbatim>\<open>NaN\<close> of a string that does not
  parse; a difference with \<^verbatim>\<open>NaN\<close> is \<^verbatim>\<open>NaN\<close>.
\<close>

definition compare_started ::
  "(string \<Rightarrow> int option) \<Rightarrow> Conversation \<Rightarrow> Conversation \<Rightarrow> int option" where
  "compare_started getTime a b =
     (case getTime (started_at b) of
        None \<Rightarrow> None
      | Some tb \<Rightarrow> (case getTime (started_at a) of None \<Rightarrow> None | Some ta \<Rightarrow> Some (tb - ta)))"

text \<open>
  \<^verbatim>\<open>Array.prototype.sort\<close> takes a comparator result that is \<^verbatim>\<open>NaN\<close> as \<open>0\<close>, and is
  stable. With a consistent comparator its result is that of stable insertion,
  which keeps \<open>x\<close> in front of \<open>y\<close> exactly when the comparator does not put \<open>x\<close>
  after \<open>y\<close>. When dates do not parse the comparator is not consistent and the
  language leaves the order to the engine; the insertion below then gives one such
  order, the one in which no two elements are moved past an unparsable date.
\<close>

definition sort_compare :: "('a \<Rightarrow> 'a \<Rightarrow> int option) \<Rightarrow> 'a \<Rightarrow> 'a \<Rightarrow> int" where
  "sort_compare cmp x y = (case cmp x y of None \<Rightarrow> 0 | Some v \<Rightarrow> v)"

fun insert_by :: "('a \<Rightarrow> 'a \<Rightarrow> int option) \<Rightarrow> 'a \<Rightarrow> 'a list \<Rightarrow> 'a list" where
  "insert_by cmp x [] = [x]"
| "insert_by cmp x (y # ys) =
     (if sort_compare cmp x y \<le> 0 then x # y # ys else y # insert_by cmp x ys)"

definition sort_by :: "('a \<Rightarrow> 'a \<Rightarrow> int option) \<Rightarrow> 'a list \<Rightarrow> 'a list" where
  "sort_by cmp xs = foldr (insert_by cmp) xs []"

text \<open>Lines 48 to 66: group, attach, sort. An exception of the grouping leaves the block.\<close>

definition buildConversations ::
  "(string \<Rightarrow> int option) \<Rightarrow> ConversationHeader list \<Rightarrow> HistoryItem list \<Rightarrow> js_error + Conversation list" where
  "buildConversations getTime conversationsData historyData =
     (case conversationsMap historyData of
        Inl e \<Rightarrow> Inl e
      | Inr m \<Rightarrow> Inr (sort_by (compare_started getTime) (conversationsWithMessages conversationsData m)))"

text \<open>The \<^verbatim>\<open>catch\<close> block of \<^verbatim>\<open>fetchConversations\<close> followed by its \<^verbatim>\<open>finally\<close>.\<close>

definition fetchConversations_catch :: "HistoryPage \<Rightarrow> HistoryPage" where
  "fetchConversations_catch s =
     s\<lparr>h_toasts := h_toasts s @ [(''Failed to load history'', ''error'')], h_isLoading := False\<rparr>"

text \<open>
  \<^verbatim>\<open>fetchConversations\<close> after its guard, with the outcomes of the two backend calls:
  a failed call throws, and so may the grouping; the \<^verbatim>\<open>catch\<close> shows a toast,
  \<^verbatim>\<open>finally\<close> clears the spinner. The second call is made only when the first one
  succeeded.
\<close>

definition fetchConversations ::
  "(string \<Rightarrow> int option) \<Rightarrow> ConversationHeader list reply \<Rightarrow> HistoryItem list reply \<Rightarrow> HistoryPage \<Rightarrow> HistoryPage" where
  "fetchConversations getTime r1 r2 s =
     (case r1 of
        Failed \<Rightarrow> fetchConversations_catch s
      | Ok conversationsData \<Rightarrow>
          (case r2 of
             Failed \<Rightarrow> fetchConversations_catch s
           | Ok historyData \<Rightarrow>
               (case buildConversations getTime conversationsData historyData of
                  Inl e \<Rightarrow> fetchConversations_catch s
                | Inr convs \<Rightarrow> s\<lparr>conversations := convs, h_isLoading := False\<rparr>)))"

text \<open>What the specification says a header's conversation is.\<close>

definition conversation_of :: "HistoryItem list \<Rightarrow> ConversationHeader \<Rightarrow> Conversation" where
  "conversation_of historyData conv =
     \<lparr>conversation_id = hdr_conversation_id conv,
      started_at = hdr_started_at conv,
      conv_messages = Items (filter (\<lambda>r. item_conversation_id r = hdr_conversation_id conv) historyData),
      expanded = False\<rparr>"

text \<open>The time of a conversation whose date parses.\<close>

definition time_of :: "(string \<Rightarrow> int option) \<Rightarrow> Conversation \<Rightarrow> int" where
  "time_of getTime c = (case getTime (started_at c) of Some t \<Rightarrow> t | None \<Rightarrow> 0)"

text \<open>The array an object owns under a key, empty when it owns none.\<close>

definition own :: "(string \<rightharpoonup> HistoryItem list) \<Rightarrow> string \<Rightarrow> HistoryItem list" where
  "own m k = (case m k of Some xs \<Rightarrow> xs | None \<Rightarrow> [])"

text \<open>
  Inputs of the examples: a date parser that knows two dates, a history page that is
  loading, and three history records.
\<close>

definition two_dates :: "string \<Rightarrow> int option" where
  "two_dates d =
     (if d = ''2024-01-01'' then Some 1 else if d = ''2024-02-01'' then Some 2 else None)"

definition history_0 :: HistoryPage where
  "history_0 = \<lparr>conversations = [], h_isLoading = True, h_toasts = []\<rparr>"

definition record_of :: "string \<Rightarrow> string \<Rightarrow> HistoryItem" where
  "record_of q cid =
     \<lparr>question = q, response = ''ok'', item_timestamp = ''2024-01-01'',
      item_conversation_id = cid, item_file_id = ''f''\<rparr>"

section \<open>File-based chat page: \<^verbatim>\<open>ChatPage\<close> with \<^verbatim>\<open>handleSendMessage\<close>\<close>

record FileItem =
  file_id :: string
  filename :: string

text \<open>
  Backend calls of the services: \<^verbatim>\<open>getUserFiles()\<close>, \<^verbatim>\<open>startConversation()\<close>,
  \<^verbatim>\<open>sendChatMessage({question, file_id, conversation_id, embedding_provider})\<close> with
  its four fields in this order, and \<^verbatim>\<open>getConversationMessages(convId)\<close>.
\<close>

datatype request =
    GetUserFiles
  | StartConversation
  | SendChatMessage string string string string
  | GetConversationMessages string

text \<open>The body of a chat response: \<^verbatim>\<open>response\<close> and an optional \<^verbatim>\<open>embedding_provider\<close>.\<close>

record ChatResponse =
  resp_response :: string
  resp_embedding_provider :: "string option"

text \<open>
  The state variables of the component, with three logs of what it did to the outside:
  \<^verbatim>\<open>showToast(message, kind)\<close> calls, \<^verbatim>\<open>navigate(path)\<close> calls and backend calls,
  oldest first.
\<close>

record ChatPage =
  files :: "FileItem list"
  selectedFile :: "string option"
  selectedFileName :: string
  messages :: "Message list"
  input :: string
  isLoading :: bool
  conversationId :: "string option"
  embeddingProvider :: string
  toasts :: "(string \<times> string) list"
  navigations :: "string list"
  network :: "request list"

text \<open>
  \<^verbatim>\<open>history.forEach\<close> in \<^verbatim>\<open>loadExistingConversation\<close>: two pushes per record, each
  reading \<^verbatim>\<open>Date.now()\<close> and \<^verbatim>\<open>Math.random()\<close> once; \<open>clock i\<close> and \<open>rand i\<close> are
  the values of the \<open>i\<close>-th reading.
\<close>

fun loadedMessages :: "(nat \<Rightarrow> nat) \<Rightarrow> (nat \<Rightarrow> nat) \<Rightarrow> nat \<Rightarrow> HistoryItem list \<Rightarrow> Message list" where
  "loadedMessages clock rand i [] = []"
| "loadedMessages clock rand i (item # history) =
     \<lparr>msg_id = UserId (clock i) (rand i), msg_role = User,
      content = question item, timestamp = DateOf (item_timestamp item)\<rparr>
   # \<lparr>msg_id = AssistantId (clock (i + 1)) (rand (i + 1)), msg_role = Assistant,
      content = response item, timestamp = DateOf (item_timestamp item)\<rparr>
   # loadedMessages clock rand (i + 2) history"

definition welcomeBackMessage :: "string \<Rightarrow> nat \<Rightarrow> Message" where
  "welcomeBackMessage name now =
     \<lparr>msg_id = WelcomeBackId, msg_role = Assistant,
      content = ''Welcome back to our conversation about '' @ [CHR 0x22] @ name @ [CHR 0x22]
                @ ''. How can I help you?'',
      timestamp = Clock now\<rparr>"

definition welcomeMessage :: "string \<Rightarrow> nat \<Rightarrow> Message" where
  "welcomeMessage name now =
     \<lparr>msg_id = WelcomeId, msg_role = Assistant,
      content = ''Hello! I'' @ [CHR 0x27] @ ''m ready to help you analyze the data in ''
                @ [CHR 0x22] @ name @ [CHR 0x22] @ ''. What would you like to know?'',
      timestamp = Clock now\<rparr>"

text \<open>\<^verbatim>\<open>fetchFiles\<close> up to its \<^verbatim>\<open>await\<close>; it is called when the page is mounted.\<close>

definition fetchFiles :: "ChatPage \<Rightarrow> ChatPage" where
  "fetchFiles s = s\<lparr>network := network s @ [GetUserFiles]\<rparr>"

text \<open>
  Its continuation: the list is stored, and its first file is selected when the
  render \<open>c\<close> had none. Nothing else is reset.
\<close>

definition fetchFiles_resume :: "ChatPage \<Rightarrow> FileItem list reply \<Rightarrow> ChatPage \<Rightarrow> ChatPage" where
  "fetchFiles_resume c r s =
     (case r of
        Failed \<Rightarrow> s\<lparr>toasts := toasts s @ [(''Failed to load files'', ''error'')]\<rparr>
      | Ok filesData \<Rightarrow>
          (case filesData of
             [] \<Rightarrow> s\<lparr>files := filesData\<rparr>
           | file # rest \<Rightarrow>
               (if falsy (selectedFile c)
                then s\<lparr>files := filesData, selectedFile := Some (file_id file)\<rparr>
                else s\<lparr>files := filesData\<rparr>)))"

text \<open>
  The effect on \<^verbatim>\<open>[fileId]\<close>, the file id of the route: a file id that differs from the
  selected one is selected. Nothing else is reset.
\<close>

definition fileId_effect :: "string option \<Rightarrow> ChatPage \<Rightarrow> ChatPage" where
  "fileId_effect fileId s =
     (case fileId of
        None \<Rightarrow> s
      | Some v \<Rightarrow> if v = [] then s else if selectedFile s = Some v then s else s\<lparr>selectedFile := Some v\<rparr>)"

text \<open>
  \<^verbatim>\<open>initializeConversation\<close> up to its \<^verbatim>\<open>await\<close>, called from the render \<open>c\<close>.
  The flag tells whether \<^verbatim>\<open>startConversation()\<close> was issued and is pending.
\<close>

definition initializeConversation :: "ChatPage \<Rightarrow> ChatPage \<Rightarrow> ChatPage \<times> bool" where
  "initializeConversation c s =
     (if falsy (selectedFile c) then (s, False)
      else (s\<lparr>network := network s @ [StartConversation]\<rparr>, True))"

text \<open>Its continuation: \<open>Ok cid\<close> carries \<^verbatim>\<open>response.conversation_id\<close>.\<close>

definition initializeConversation_resume :: "ChatPage \<Rightarrow> nat \<Rightarrow> string reply \<Rightarrow> ChatPage \<Rightarrow> ChatPage" where
  "initializeConversation_resume c now r s =
     (case r of
        Ok cid \<Rightarrow> s\<lparr>conversationId := Some cid, messages := [welcomeMessage (selectedFileName c) now]\<rparr>
      | Failed \<Rightarrow> s\<lparr>toasts := toasts s @ [(''Failed to start conversation'', ''error'')]\<rparr>)"

text \<open>\<^verbatim>\<open>loadExistingConversation(convId)\<close> up to its \<^verbatim>\<open>await\<close>.\<close>

definition loadExistingConversation :: "ChatPage \<Rightarrow> string \<Rightarrow> ChatPage \<Rightarrow> ChatPage \<times> bool" where
  "loadExistingConversation c convId s =
     (if falsy (selectedFile c) then (s, False)
      else (s\<lparr>isLoading := True, network := network s @ [GetConversationMessages convId]\<rparr>, True))"

text \<open>
  Its continuation. On success the flattened history replaces the transcript, and an
  empty one is replaced by the welcome-back message. On failure a toast is shown and
  \<^verbatim>\<open>initializeConversation()\<close> is called (the flag tells whether its call is pending).
  \<^verbatim>\<open>finally\<close> clears the spinner.
\<close>

definition loadExistingConversation_resume ::
  "ChatPage \<Rightarrow> (nat \<Rightarrow> nat) \<Rightarrow> (nat \<Rightarrow> nat) \<Rightarrow> nat \<Rightarrow> HistoryItem list reply \<Rightarrow> ChatPage \<Rightarrow> ChatPage \<times> bool" where
  "loadExistingConversation_resume c clock rand now r s =
     (case r of
        Ok history \<Rightarrow>
          (let loaded = loadedMessages clock rand 0 history;
               s1 = s\<lparr>messages := loaded\<rparr>;
               s2 = (if length loaded = 0
                     then s1\<lparr>messages := [welcomeBackMessage (selectedFileName c) now]\<rparr>
                     else s1)
           in (s2\<lparr>isLoading := False\<rparr>, False))
      | Failed \<Rightarrow>
          (let s1 = s\<lparr>toasts := toasts s @ [(''Failed to load conversation history'', ''error'')]\<rparr>;
               started = initializeConversation c s1
           in ((fst started)\<lparr>isLoading := False\<rparr>, snd started)))"

text \<open>
  The effect on \<^verbatim>\<open>[location]\<close>; \<open>convId\<close> is \<^verbatim>\<open>queryParams.get("conversationId")\<close>.
  An effect runs after the render it belongs to, so that render is the current
  state.
\<close>

definition location_effect :: "string option \<Rightarrow> ChatPage \<Rightarrow> ChatPage \<times> bool" where
  "location_effect convId s =
     (case convId of
        None \<Rightarrow> (s, False)
      | Some v \<Rightarrow>
          (if v = [] then (s, False)
           else loadExistingConversation s v (s\<lparr>conversationId := Some v\<rparr>)))"

text \<open>
  The effect on \<^verbatim>\<open>[selectedFile, files, conversationId]\<close>: it records the file's name
  and starts a conversation when there is none. The call of
  \<^verbatim>\<open>initializeConversation\<close> closes over the render the effect belongs to.
\<close>

definition selection_effect :: "ChatPage \<Rightarrow> ChatPage \<times> bool" where
  "selection_effect s =
     (case selectedFile s of
        None \<Rightarrow> (s, False)
      | Some f \<Rightarrow>
          (if f = [] then (s, False)
           else (case find (\<lambda>x. file_id x = f) (files s) of
                   None \<Rightarrow> (s, False)
                 | Some file \<Rightarrow>
                     (if falsy (conversationId s)
                      then initializeConversation s (s\<lparr>selectedFileName := filename file\<rparr>)
                      else (s\<lparr>selectedFileName := filename file\<rparr>, False)))))"

text \<open>\<^verbatim>\<open>handleFileChange\<close>, the \<^verbatim>\<open>onChange\<close> of the file select; it reads only the event.\<close>

definition handleFileChange :: "string \<Rightarrow> ChatPage \<Rightarrow> ChatPage" where
  "handleFileChange newFileId s =
     s\<lparr>selectedFile := Some newFileId, conversationId := None, messages := [],
       navigations := navigations s @ [''/chat/'' @ newFileId]\<rparr>"

text \<open>The \<^verbatim>\<open>onChange\<close> of the text area.\<close>

definition setInput :: "string \<Rightarrow> ChatPage \<Rightarrow> ChatPage" where
  "setInput t s = s\<lparr>input := t\<rparr>"

text \<open>
  \<^verbatim>\<open>handleSendMessage\<close> up to its \<^verbatim>\<open>await\<close>, as the closure of the render \<open>c\<close>: the
  guard, the content of the user message and the fields of the request are read
  from \<open>c\<close>; the user message is appended by a functional update. The flag tells
  whether the chat request was issued and is pending; the two inner \<open>None\<close> cases are
  excluded by the guard.
\<close>

definition handleSendMessage :: "nat \<Rightarrow> ChatPage \<Rightarrow> ChatPage \<Rightarrow> ChatPage \<times> bool" where
  "handleSendMessage now c s =
     (if trim (input c) = [] \<or> falsy (selectedFile c) \<or> falsy (conversationId c) then (s, False)
      else (case selectedFile c of
              None \<Rightarrow> (s, False)
            | Some f \<Rightarrow>
                (case conversationId c of
                   None \<Rightarrow> (s, False)
                 | Some cid \<Rightarrow>
                     (s\<lparr>messages := messages s @
                          [\<lparr>msg_id = NowId now, msg_role = User, content = input c,
                            timestamp = Clock now\<rparr>],
                        input := [],
                        isLoading := True,
                        network := network s @ [SendChatMessage (input c) f cid (embeddingProvider c)]\<rparr>,
                      True))))"

text \<open>
  Its continuation: the reply is appended by a functional update, so to whatever the
  transcript is then; a failed call only shows a toast. \<^verbatim>\<open>finally\<close> clears the spinner.
\<close>

definition handleSendMessage_resume :: "nat \<Rightarrow> ChatResponse reply \<Rightarrow> ChatPage \<Rightarrow> ChatPage" where
  "handleSendMessage_resume now r s =
     (case r of
        Ok resp \<Rightarrow>
          (let s1 = s\<lparr>messages := messages s @
                       [\<lparr>msg_id = ResponseId now, msg_role = Assistant,
                         content = resp_response resp, timestamp = Clock now\<rparr>]\<rparr>;
               s2 = (case resp_embedding_provider resp of
                       None \<Rightarrow> s1
                     | Some p \<Rightarrow> if p = [] then s1 else s1\<lparr>embeddingProvider := p\<rparr>)
           in s2\<lparr>isLoading := False\<rparr>)
      | Failed \<Rightarrow>
          s\<lparr>toasts := toasts s @ [(''Failed to send message'', ''error'')], isLoading := False\<rparr>)"

text \<open>The \<^verbatim>\<open>disabled\<close> attributes of the text area and of the send button in a render.\<close>

definition textarea_disabled :: "ChatPage \<Rightarrow> bool" where
  "textarea_disabled s = (isLoading s \<or> falsy (selectedFile s))"

definition send_disabled :: "ChatPage \<Rightarrow> bool" where
  "send_disabled s = (isLoading s \<or> trim (input s) = [] \<or> falsy (selectedFile s))"

text \<open>
  The transitions of the page: a file is chosen in the select; the route's file id
  changes; the list of files arrives or fails; the location changes; the selection
  effect runs; the user types; a send is invoked from the latest render, or from an
  earlier render \<open>c\<close>; the reply to a send, to the start of a conversation or to the
  loading of one arrives or fails.
\<close>

datatype action =
    FileChange string
  | FileIdEffect "string option"
  | FilesFetched ChatPage "FileItem list reply"
  | LocationEffect "string option"
  | SelectionEffect
  | TypeInput string
  | SendMessage nat
  | SendMessageFrom ChatPage nat
  | SendReplied nat "ChatResponse reply"
  | StartReplied ChatPage nat "string reply"
  | LoadReplied ChatPage "nat \<Rightarrow> nat" "nat \<Rightarrow> nat" nat "HistoryItem list reply"

fun step :: "action \<Rightarrow> ChatPage \<Rightarrow> ChatPage" where
  "step (FileChange f) s = handleFileChange f s"
| "step (FileIdEffect fileId) s = fileId_effect fileId s"
| "step (FilesFetched c r) s = fetchFiles_resume c r s"
| "step (LocationEffect convId) s = fst (location_effect convId s)"
| "step SelectionEffect s = fst (selection_effect s)"
| "step (TypeInput t) s = setInput t s"
| "step (SendMessage now) s = fst (handleSendMessage now s s)"
| "step (SendMessageFrom c now) s = fst (handleSendMessage now c s)"
| "step (SendReplied now r) s = handleSendMessage_resume now r s"
| "step (StartReplied c now r) s = initializeConversation_resume c now r s"
| "step (LoadReplied c clock rand now r) s = fst (loadExistingConversation_resume c clock rand now r s)"

definition run :: "action list \<Rightarrow> ChatPage \<Rightarrow> ChatPage" where
  "run acts s = foldl (\<lambda>st a. step a st) s acts"

text \<open>
  The transitions that bring no backend success, no conversation id from the
  location and no send that an earlier render accepts.
\<close>

fun quiet :: "action \<Rightarrow> bool" where
  "quiet (LocationEffect convId) = falsy convId"
| "quiet (SendMessageFrom c now) =
     (trim (input c) = [] \<or> falsy (selectedFile c) \<or> falsy (conversationId c))"
| "quiet (SendReplied now r) = (r = Failed)"
| "quiet (StartReplied c now r) = (r = Failed)"
| "quiet (LoadReplied c clock rand now r) = (r = Failed)"
| "quiet (FileChange f) = True"
| "quiet (FileIdEffect fileId) = True"
| "quiet (FilesFetched c r) = True"
| "quiet SelectionEffect = True"
| "quiet (TypeInput t) = True"
| "quiet (SendMessage now) = True"

text \<open>A page used in the examples: file \<open>A\<close> is selected, conversation \<open>c1\<close> is bound.\<close>

definition page_A :: ChatPage where
  "page_A =
     \<lparr>files = [\<lparr>file_id = ''A'', filename = ''a.csv''\<rparr>, \<lparr>file_id = ''B'', filename = ''b.csv''\<rparr>],
      selectedFile = Some ''A'', selectedFileName = ''a.csv'', messages = [],
      input = ''how many rows?'', isLoading = False, conversationId = Some ''c1'',
      embeddingProvider = ''local'', toasts = [], navigations = [], network = []\<rparr>"

text \<open>
  A run in which a conversation is loaded while a send is pending: the send of
  \<open>page_A\<close> is issued at clock 1 and never answered; then the location gets the
  query \<^verbatim>\<open>?conversationId=c2\<close>, and \<^verbatim>\<open>getConversationMessages\<close> succeeds with an
  empty list at clock 2.
\<close>

definition page_A_sending :: ChatPage where
  "page_A_sending = fst (handleSendMessage 1 page_A page_A)"

definition page_A_reloaded :: ChatPage where
  "page_A_reloaded =
     fst (loadExistingConversation_resume page_A_sending Suc Suc 2 (Ok [])
            (fst (location_effect (Some ''c2'') page_A_sending)))"

section \<open>Assistant chat page: \<^verbatim>\<open>ChatPage\<close> with \<^verbatim>\<open>handleSubmit\<close>\<close>

text \<open>
  Its \<^verbatim>\<open>fetch\<close> calls: \<^verbatim>\<open>POST /api/start-conversation\<close>, \<^verbatim>\<open>POST /api/chat\<close> with the
  body \<^verbatim>\<open>{question, conversation_id}\<close>, and \<^verbatim>\<open>GET /api/conversations/${user.id}\<close>.
\<close>

datatype a_request =
    PostStartConversation
  | PostChat string string
  | GetConversations string

record AssistantPage =
  message :: string
  a_messages :: "Message list"
  a_isLoading :: bool
  currentConversationId :: "string option"
  a_network :: "a_request list"

text \<open>Where \<^verbatim>\<open>handleSubmit\<close> stands after a step: returned, or suspended at an \<^verbatim>\<open>await\<close>.\<close>

datatype phase = Returned | AwaitStart | AwaitChat

definition errorMessage :: "nat \<Rightarrow> Message" where
  "errorMessage now =
     \<lparr>msg_id = NowIdPlus now 2, msg_role = Assistant,
      content = ''Sorry, I encountered an error. Please try again.'',
      timestamp = Clock now\<rparr>"

text \<open>The \<^verbatim>\<open>catch\<close> block of \<^verbatim>\<open>handleSubmit\<close> followed by its \<^verbatim>\<open>finally\<close>.\<close>

definition handleSubmit_catch :: "nat \<Rightarrow> AssistantPage \<Rightarrow> AssistantPage" where
  "handleSubmit_catch now s =
     s\<lparr>a_messages := a_messages s @ [errorMessage now], a_isLoading := False\<rparr>"

text \<open>
  \<^verbatim>\<open>fetchConversations\<close> of this page up to its \<^verbatim>\<open>await\<close>; \<open>token\<close> and \<open>userId\<close> are
  what \<^verbatim>\<open>localStorage\<close> holds. The early \<^verbatim>\<open>return\<close> is inside \<^verbatim>\<open>try\<close>, so \<^verbatim>\<open>finally\<close>
  clears the spinner.
\<close>

definition a_fetchConversations :: "string option \<Rightarrow> string option \<Rightarrow> AssistantPage \<Rightarrow> AssistantPage \<times> bool" where
  "a_fetchConversations token userId s =
     (if falsy token \<or> falsy userId then (s\<lparr>a_isLoading := False\<rparr>, False)
      else (case userId of
              None \<Rightarrow> (s\<lparr>a_isLoading := False\<rparr>, False)
            | Some u \<Rightarrow> (s\<lparr>a_isLoading := True, a_network := a_network s @ [GetConversations u]\<rparr>, True)))"

text \<open>
  \<^verbatim>\<open>handleSubmit\<close> up to its first \<^verbatim>\<open>await\<close>, as the closure of the render \<open>c\<close>: the
  guard reads the text and the flag of \<open>c\<close>; the optimistic user message is appended
  by a functional update; a missing token throws into \<^verbatim>\<open>catch\<close> (read at clock
  \<open>later\<close>); then either the start of a conversation or the chat request follows,
  by the conversation id of \<open>c\<close>.
\<close>

definition handleSubmit ::
  "nat \<Rightarrow> nat \<Rightarrow> string option \<Rightarrow> AssistantPage \<Rightarrow> AssistantPage \<Rightarrow> AssistantPage \<times> phase" where
  "handleSubmit now later token c s =
     (if trim (message c) = [] \<or> a_isLoading c then (s, Returned)
      else
        (let s1 = s\<lparr>a_messages := a_messages s @
                      [\<lparr>msg_id = NowId now, msg_role = User, content = message c,
                        timestamp = Clock now\<rparr>],
                    a_isLoading := True,
                    message := []\<rparr>
         in if falsy token then (handleSubmit_catch later s1, Returned)
            else (case currentConversationId c of
                    None \<Rightarrow> (s1\<lparr>a_network := a_network s1 @ [PostStartConversation]\<rparr>, AwaitStart)
                  | Some cid \<Rightarrow>
                      (if cid = []
                       then (s1\<lparr>a_network := a_network s1 @ [PostStartConversation]\<rparr>, AwaitStart)
                       else (s1\<lparr>a_network := a_network s1 @ [PostChat (message c) cid]\<rparr>, AwaitChat)))))"

text \<open>
  The continuation after \<^verbatim>\<open>/api/start-conversation\<close>; \<open>Ok cid\<close> carries
  \<^verbatim>\<open>startData.conversation_id\<close>, and \<open>c\<close> is the render \<^verbatim>\<open>handleSubmit\<close> was called in,
  whose \<^verbatim>\<open>message\<close> is the question.
\<close>

definition handleSubmit_started :: "AssistantPage \<Rightarrow> nat \<Rightarrow> string reply \<Rightarrow> AssistantPage \<Rightarrow> AssistantPage \<times> phase" where
  "handleSubmit_started c now r s =
     (case r of
        Failed \<Rightarrow> (handleSubmit_catch now s, Returned)
      | Ok cid \<Rightarrow>
          (s\<lparr>currentConversationId := Some cid,
             a_network := a_network s @ [PostChat (message c) cid]\<rparr>, AwaitChat))"

text \<open>
  The continuation after \<^verbatim>\<open>/api/chat\<close>; \<open>Ok text\<close> carries \<^verbatim>\<open>data.response\<close>. The list
  of conversations is refreshed when the render \<open>c\<close> had no conversation.
\<close>

definition handleSubmit_answered ::
  "AssistantPage \<Rightarrow> nat \<Rightarrow> string option \<Rightarrow> string option \<Rightarrow> string reply \<Rightarrow> AssistantPage \<Rightarrow> AssistantPage" where
  "handleSubmit_answered c now token userId r s =
     (case r of
        Failed \<Rightarrow> handleSubmit_catch now s
      | Ok text \<Rightarrow>
          (let s1 = s\<lparr>a_messages := a_messages s @
                        [\<lparr>msg_id = NowIdPlus now 1, msg_role = Assistant, content = text,
                          timestamp = Clock now\<rparr>]\<rparr>;
               s2 = (if falsy (currentConversationId c)
                     then fst (a_fetchConversations token userId s1)
                     else s1)
           in s2\<lparr>a_isLoading := False\<rparr>))"

text \<open>A page used in the examples: nothing sent yet, no conversation.\<close>

definition page_0 :: AssistantPage where
  "page_0 =
     \<lparr>message = ''where is my parcel?'', a_messages = [], a_isLoading = False,
      currentConversationId = None, a_network = []\<rparr>"

section \<open>Properties of the history reconstructor\<close>

text \<open>
  Where no conversation id is a name that every object inherits, the grouping does
  not throw and each key owns the records of its id, in order.
\<close>

lemma push_item_plain:
  assumes "item_conversation_id item \<notin> set inherited"
  shows "\<exists>m1. push_item item m = Inr m1
           \<and> (\<forall>k. own m1 k = own m k @ (if item_conversation_id item = k then [item] else []))"
proof (cases "m (item_conversation_id item)")
  case None
  with assms have "push_item item m = Inr (m(item_conversation_id item \<mapsto> [item]))"
    by (simp add: push_item_def get_property_def Let_def)
  with None show ?thesis
    by (auto simp: own_def)
next
  case (Some xs)
  then have "push_item item m = Inr (m(item_conversation_id item \<mapsto> xs @ [item]))"
    by (simp add: push_item_def get_property_def Let_def)
  with Some show ?thesis
    by (auto simp: own_def)
qed

lemma forEach_push_plain:
  assumes "\<forall>r \<in> set rs. item_conversation_id r \<notin> set inherited"
  shows "\<exists>m1. forEach_push rs m = Inr m1
           \<and> (\<forall>k. own m1 k = own m k @ filter (\<lambda>r. item_conversation_id r = k) rs)"
  using assms
proof (induction rs arbitrary: m)
  case Nil
  then show ?case by simp
next
  case (Cons r rs)
  from Cons.prems have "item_conversation_id r \<notin> set inherited"
    by simp
  from push_item_plain [OF this, of m] obtain m1 where
    m1: "push_item r m = Inr m1"
      "\<forall>k. own m1 k = own m k @ (if item_conversation_id r = k then [r] else [])"
    by blast
  from Cons.prems have "\<forall>r \<in> set rs. item_conversation_id r \<notin> set inherited"
    by simp
  from Cons.IH [OF this, of m1] obtain m2 where
    m2: "forEach_push rs m1 = Inr m2"
      "\<forall>k. own m2 k = own m1 k @ filter (\<lambda>r. item_conversation_id r = k) rs"
    by blast
  from m1 m2 show ?case
    by auto
qed

lemma conversationsMap_plain:
  assumes "\<forall>r \<in> set rs. item_conversation_id r \<notin> set inherited"
  shows "\<exists>m. conversationsMap rs = Inr m
           \<and> (\<forall>k. own m k = filter (\<lambda>r. item_conversation_id r = k) rs)"
  using forEach_push_plain [OF assms, of Map.empty]
  by (simp add: conversationsMap_def own_def)

lemma lookup_or_empty_plain:
  "k \<notin> set inherited \<Longrightarrow> lookup_or_empty m k = Items (own m k)"
  by (simp add: lookup_or_empty_def get_property_def own_def split: option.splits)

lemma conversationsWithMessages_plain:
  assumes "\<forall>h \<in> set hs. hdr_conversation_id h \<notin> set inherited"
    and "\<forall>k. own m k = filter (\<lambda>r. item_conversation_id r = k) rs"
  shows "conversationsWithMessages hs m = map (conversation_of rs) hs"
  using assms
  by (simp add: conversationsWithMessages_def conversation_of_def lookup_or_empty_plain)

text \<open>Where every date parses, the sort is the stable sort by descending time.\<close>

lemma insert_by_key:
  assumes "getTime (started_at x) \<noteq> None" "\<forall>y \<in> set ys. getTime (started_at y) \<noteq> None"
  shows "insert_by (compare_started getTime) x ys = insort_key (\<lambda>c. - time_of getTime c) x ys"
  using assms
  by (induction ys) (auto simp: sort_compare_def compare_started_def time_of_def)

lemma sort_by_key:
  assumes "\<forall>y \<in> set ys. getTime (started_at y) \<noteq> None"
  shows "sort_by (compare_started getTime) ys = sort_key (\<lambda>c. - time_of getTime c) ys"
  using assms
proof (induction ys)
  case Nil
  then show ?case by (simp add: sort_by_def)
next
  case (Cons y ys)
  then have ih: "sort_by (compare_started getTime) ys = sort_key (\<lambda>c. - time_of getTime c) ys"
    by simp
  have "\<forall>z \<in> set (sort_key (\<lambda>c. - time_of getTime c) ys). getTime (started_at z) \<noteq> None"
    using Cons.prems by simp
  with Cons.prems ih show ?case
    by (simp add: sort_by_def sort_key_def insert_by_key)
qed

lemma buildConversations_plain:
  assumes "\<forall>r \<in> set rs. item_conversation_id r \<notin> set inherited"
    and "\<forall>h \<in> set hs. hdr_conversation_id h \<notin> set inherited"
    and "\<forall>h \<in> set hs. getTime (hdr_started_at h) \<noteq> None"
  shows "buildConversations getTime hs rs =
           Inr (sort_key (\<lambda>c. - time_of getTime c) (map (conversation_of rs) hs))"
proof -
  from conversationsMap_plain [OF assms(1)] obtain m where
    m: "conversationsMap rs = Inr m" "\<forall>k. own m k = filter (\<lambda>r. item_conversation_id r = k) rs"
    by blast
  have cw: "conversationsWithMessages hs m = map (conversation_of rs) hs"
    by (rule conversationsWithMessages_plain [OF assms(2) m(2)])
  have "\<forall>c \<in> set (map (conversation_of rs) hs). getTime (started_at c) \<noteq> None"
    using assms(3) by (simp add: conversation_of_def)
  then have "sort_by (compare_started getTime) (map (conversation_of rs) hs) =
      sort_key (\<lambda>c. - time_of getTime c) (map (conversation_of rs) hs)"
    by (rule sort_by_key)
  with m(1) cw show ?thesis
    by (simp add: buildConversations_def)
qed

lemma fetchConversations_plain:
  assumes "\<forall>r \<in> set rs. item_conversation_id r \<notin> set inherited"
    and "\<forall>h \<in> set hs. hdr_conversation_id h \<notin> set inherited"
    and "\<forall>h \<in> set hs. getTime (hdr_started_at h) \<noteq> None"
  shows "fetchConversations getTime (Ok hs) (Ok rs) s =
           s\<lparr>conversations := sort_key (\<lambda>c. - time_of getTime c) (map (conversation_of rs) hs),
             h_isLoading := False\<rparr>"
  by (simp add: fetchConversations_def buildConversations_plain [OF assms])

text \<open>
  On such inputs the page stores what claims C4 and C8 say: one conversation per
  header, in descending order of start time, equal times in the order of the
  headers, each with the records of its id in the order of the backend; a record
  whose id has no header is in no conversation, and no toast is shown.
\<close>

lemma fetchConversations_plain_order_and_groups:
  assumes "\<forall>r \<in> set rs. item_conversation_id r \<notin> set inherited"
    and "\<forall>h \<in> set hs. hdr_conversation_id h \<notin> set inherited"
    and "\<forall>h \<in> set hs. getTime (hdr_started_at h) \<noteq> None"
  shows "mset (conversations (fetchConversations getTime (Ok hs) (Ok rs) s)) =
           mset (map (conversation_of rs) hs)"
    and "sorted_wrt (\<lambda>a b. time_of getTime b \<le> time_of getTime a)
           (conversations (fetchConversations getTime (Ok hs) (Ok rs) s))"
    and "filter (\<lambda>c. time_of getTime c = t) (conversations (fetchConversations getTime (Ok hs) (Ok rs) s)) =
           filter (\<lambda>c. time_of getTime c = t) (map (conversation_of rs) hs)"
    and "\<forall>c \<in> set (conversations (fetchConversations getTime (Ok hs) (Ok rs) s)).
           conv_messages c = Items (filter (\<lambda>r. item_conversation_id r = conversation_id c) rs)"
    and "h_toasts (fetchConversations getTime (Ok hs) (Ok rs) s) = h_toasts s"
proof -
  note eq = fetchConversations_plain [OF assms, of s]
  show "mset (conversations (fetchConversations getTime (Ok hs) (Ok rs) s)) =
           mset (map (conversation_of rs) hs)"
    by (simp add: eq)
  have "sorted (map (\<lambda>c. - time_of getTime c)
          (sort_key (\<lambda>c. - time_of getTime c) (map (conversation_of rs) hs)))"
    by simp
  then show "sorted_wrt (\<lambda>a b. time_of getTime b \<le> time_of getTime a)
           (conversations (fetchConversations getTime (Ok hs) (Ok rs) s))"
    by (simp add: eq sorted_map)
  have "filter (\<lambda>c. - time_of getTime c = - t)
          (sort_key (\<lambda>c. - time_of getTime c) (map (conversation_of rs) hs)) =
        filter (\<lambda>c. - time_of getTime c = - t) (map (conversation_of rs) hs)"
    by (rule sort_key_stable)
  then show "filter (\<lambda>c. time_of getTime c = t) (conversations (fetchConversations getTime (Ok hs) (Ok rs) s)) =
           filter (\<lambda>c. time_of getTime c = t) (map (conversation_of rs) hs)"
    by (simp add: eq)
  show "\<forall>c \<in> set (conversations (fetchConversations getTime (Ok hs) (Ok rs) s)).
           conv_messages c = Items (filter (\<lambda>r. item_conversation_id r = conversation_id c) rs)"
    by (auto simp: eq conversation_of_def)
  show "h_toasts (fetchConversations getTime (Ok hs) (Ok rs) s) = h_toasts s"
    by (simp add: eq)
qed

lemma fetchConversations_plain_example:
  "conversations (fetchConversations two_dates
      (Ok [\<lparr>hdr_conversation_id = ''c1'', hdr_started_at = ''2024-01-01''\<rparr>,
           \<lparr>hdr_conversation_id = ''c2'', hdr_started_at = ''2024-02-01''\<rparr>])
      (Ok [record_of ''q1'' ''c1'', record_of ''q2'' ''c2'', record_of ''q3'' ''c2''])
      history_0) =
    [\<lparr>conversation_id = ''c2'', started_at = ''2024-02-01'',
      conv_messages = Items [record_of ''q2'' ''c2'', record_of ''q3'' ''c2''], expanded = False\<rparr>,
     \<lparr>conversation_id = ''c1'', started_at = ''2024-01-01'',
      conv_messages = Items [record_of ''q1'' ''c1''], expanded = False\<rparr>]"
proof -
  have "fetchConversations two_dates
      (Ok [\<lparr>hdr_conversation_id = ''c1'', hdr_started_at = ''2024-01-01''\<rparr>,
           \<lparr>hdr_conversation_id = ''c2'', hdr_started_at = ''2024-02-01''\<rparr>])
      (Ok [record_of ''q1'' ''c1'', record_of ''q2'' ''c2'', record_of ''q3'' ''c2''])
      history_0 =
    history_0\<lparr>conversations := sort_key (\<lambda>c. - time_of two_dates c)
        (map (conversation_of [record_of ''q1'' ''c1'', record_of ''q2'' ''c2'', record_of ''q3'' ''c2''])
          [\<lparr>hdr_conversation_id = ''c1'', hdr_started_at = ''2024-01-01''\<rparr>,
           \<lparr>hdr_conversation_id = ''c2'', hdr_started_at = ''2024-02-01''\<rparr>]),
      h_isLoading := False\<rparr>"
    by (rule fetchConversations_plain) (simp_all add: inherited_def record_of_def two_dates_def)
  then show ?thesis
    by (simp add: conversation_of_def time_of_def two_dates_def record_of_def)
qed

lemma fetchConversations_plain_orphan_dropped:
  assumes "\<forall>r \<in> set rs. item_conversation_id r \<notin> set inherited"
    and "\<forall>h \<in> set hs. hdr_conversation_id h \<notin> set inherited"
    and "\<forall>h \<in> set hs. getTime (hdr_started_at h) \<noteq> None"
    and "item_conversation_id r \<notin> hdr_conversation_id ` set hs"
    and "c \<in> set (conversations (fetchConversations getTime (Ok hs) (Ok rs) s))"
  shows "\<exists>xs. conv_messages c = Items xs \<and> r \<notin> set xs"
proof -
  from assms(5) obtain h where "h \<in> set hs" "c = conversation_of rs h"
    by (auto simp: fetchConversations_plain [OF assms(1-3)])
  with assms(4) show ?thesis
    by (auto simp: conversation_of_def)
qed

text \<open>
  Two further inputs outside those of the lemmas above. A header whose id is an
  inherited name and has no record gets the inherited value, not the empty array,
  as its messages. And a date that does not parse makes every comparison with it
  \<open>0\<close>: here nothing is moved, and the two dates that parse stay in ascending order.
\<close>

lemma fetchConversations_inherited_header_and_unparsable_date:
  "conversations (fetchConversations two_dates
      (Ok [\<lparr>hdr_conversation_id = ''c1'', hdr_started_at = ''2024-01-01''\<rparr>,
           \<lparr>hdr_conversation_id = ''toString'', hdr_started_at = ''soon''\<rparr>,
           \<lparr>hdr_conversation_id = ''c2'', hdr_started_at = ''2024-02-01''\<rparr>])
      (Ok [record_of ''q1'' ''c1''])
      history_0) =
    [\<lparr>conversation_id = ''c1'', started_at = ''2024-01-01'',
      conv_messages = Items [record_of ''q1'' ''c1''], expanded = False\<rparr>,
     \<lparr>conversation_id = ''toString'', started_at = ''soon'',
      conv_messages = Inherited ''toString'', expanded = False\<rparr>,
     \<lparr>conversation_id = ''c2'', started_at = ''2024-02-01'',
      conv_messages = Items [], expanded = False\<rparr>]"
  by (simp add: fetchConversations_def buildConversations_def conversationsMap_def push_item_def
      get_property_def inherited_def record_of_def history_0_def Let_def
      conversationsWithMessages_def lookup_or_empty_def sort_by_def sort_compare_def
      compare_started_def two_dates_def)

section \<open>Claims about the history reconstructor\<close>

text \<open>
  Claim C4 (history reconstructor, ordering and grouping) does not hold of the code
  for every input. Here the headers are \<open>c1\<close> and \<^verbatim>\<open>constructor\<close>, the second started
  later, and the records are one of \<open>c1\<close> and two of \<^verbatim>\<open>constructor\<close>. The claim asks
  for the conversation \<^verbatim>\<open>constructor\<close> with two records followed by \<open>c1\<close> with one.
  In the code the property \<^verbatim>\<open>constructor\<close> of the plain object reads as the inherited
  function, no array is created, \<^verbatim>\<open>push\<close> throws, and the \<^verbatim>\<open>catch\<close> block shows the
  toast: no conversation is stored.
\<close>

theorem fetchConversations_inherited_id_fails:
  "fetchConversations two_dates
      (Ok [\<lparr>hdr_conversation_id = ''c1'', hdr_started_at = ''2024-01-01''\<rparr>,
           \<lparr>hdr_conversation_id = ''constructor'', hdr_started_at = ''2024-02-01''\<rparr>])
      (Ok [record_of ''q1'' ''c1'', record_of ''q2'' ''constructor'', record_of ''q3'' ''constructor''])
      history_0 =
    \<lparr>conversations = [], h_isLoading = False, h_toasts = [(''Failed to load history'', ''error'')]\<rparr>"
  by (simp add: fetchConversations_def buildConversations_def conversationsMap_def push_item_def
      get_property_def inherited_def record_of_def history_0_def fetchConversations_catch_def Let_def)

text \<open>
  Claim C8 (orphan records) does not hold of the code for every input. Here the only
  header is \<open>c1\<close>, and the records are one of \<open>c1\<close> and one of \<^verbatim>\<open>constructor\<close>, which
  has no header. The claim asks for the conversation \<open>c1\<close> with its record, the
  orphan left out and no error. In the code \<^verbatim>\<open>push\<close> throws on the orphan, and the
  \<^verbatim>\<open>catch\<close> block shows the toast: no conversation is stored.
\<close>

theorem fetchConversations_orphan_inherited_id_fails:
  "item_conversation_id (record_of ''q9'' ''constructor'') \<notin>
     hdr_conversation_id ` set [\<lparr>hdr_conversation_id = ''c1'', hdr_started_at = ''2024-01-01''\<rparr>]
   \<and> fetchConversations two_dates
      (Ok [\<lparr>hdr_conversation_id = ''c1'', hdr_started_at = ''2024-01-01''\<rparr>])
      (Ok [record_of ''q1'' ''c1'', record_of ''q9'' ''constructor''])
      history_0 =
    \<lparr>conversations = [], h_isLoading = False, h_toasts = [(''Failed to load history'', ''error'')]\<rparr>"
  by (simp add: fetchConversations_def buildConversations_def conversationsMap_def push_item_def
      get_property_def inherited_def record_of_def history_0_def fetchConversations_catch_def Let_def)

section \<open>Properties of the file-based chat page\<close>

lemma strip_Nil: "strip ws [] = []"
proof -
  have "find (\<lambda>w. w \<noteq> [] \<and> take (length w) [] = w) ws = None"
    by (auto simp: find_None_iff)
  then show ?thesis
    by (simp add: strip.simps)
qed

lemma trim_Nil: "trim [] = []"
  by (simp add: trim_def strip_Nil)

lemma trim_page_A: "trim ''how many rows?'' = ''how many rows?''"
  by (simp add: trim_def strip.simps white_space_def)

lemma trim_columns: "trim ''and columns?'' = ''and columns?''"
  by (simp add: trim_def strip.simps white_space_def)

lemma trim_page_0: "trim ''where is my parcel?'' = ''where is my parcel?''"
  by (simp add: trim_def strip.simps white_space_def)

text \<open>A text of a no-break space, a line separator and a space is blank.\<close>

lemma trim_unicode_blank: "trim [CHR 0xC2, CHR 0xA0, CHR 0xE2, CHR 0x80, CHR 0xA8, CHR 0x20] = []"
  by (simp add: trim_def strip.simps white_space_def)

lemma trim_inner_space: "trim ([CHR 0xEF, CHR 0xBB, CHR 0xBF] @ '' a b '' @ [CHR 0x0A]) = ''a b''"
  by (simp add: trim_def strip.simps white_space_def)

lemma truthy_cases: "\<not> falsy x \<Longrightarrow> \<exists>v. x = Some v \<and> v \<noteq> []"
  by (cases x) (simp_all add: falsy_def)

lemma handleSendMessage_accepted:
  assumes "trim (input c) \<noteq> []" "selectedFile c = Some f" "f \<noteq> []"
    "conversationId c = Some cid" "cid \<noteq> []"
  shows "handleSendMessage now c s =
     (s\<lparr>messages := messages s @
          [\<lparr>msg_id = NowId now, msg_role = User, content = input c, timestamp = Clock now\<rparr>],
        input := [], isLoading := True,
        network := network s @ [SendChatMessage (input c) f cid (embeddingProvider c)]\<rparr>, True)"
  using assms by (simp add: handleSendMessage_def falsy_def)

lemma handleSendMessage_issued:
  assumes "snd (handleSendMessage now c s)"
  shows "\<exists>f cid. trim (input c) \<noteq> [] \<and> selectedFile c = Some f \<and> f \<noteq> []
           \<and> conversationId c = Some cid \<and> cid \<noteq> []"
  using assms by (auto simp: handleSendMessage_def falsy_def split: if_splits option.splits)

lemma handleSendMessage_rejected:
  "trim (input c) = [] \<or> falsy (selectedFile c) \<or> falsy (conversationId c) \<Longrightarrow>
   handleSendMessage now c s = (s, False)"
  by (simp add: handleSendMessage_def)

lemma handleSendMessage_page_A:
  "handleSendMessage now page_A s =
     (s\<lparr>messages := messages s @
          [\<lparr>msg_id = NowId now, msg_role = User, content = ''how many rows?'',
            timestamp = Clock now\<rparr>],
        input := [], isLoading := True,
        network := network s @ [SendChatMessage ''how many rows?'' ''A'' ''c1'' ''local'']\<rparr>, True)"
proof -
  have "trim (input page_A) \<noteq> []" "selectedFile page_A = Some ''A''"
    "conversationId page_A = Some ''c1''" "input page_A = ''how many rows?''"
    "embeddingProvider page_A = ''local''"
    by (simp_all add: page_A_def trim_page_A)
  then show ?thesis
    using handleSendMessage_accepted [of page_A "''A''" "''c1''" now s] by simp
qed

text \<open>
  The two selections that are not made in the select: the first file of the list
  becomes selected when the mounting render had none, and the file id of the route
  when it differs; they change only the selected file (and the list).
\<close>

lemma fetchFiles_resume_default:
  "falsy (selectedFile c) \<Longrightarrow>
   fetchFiles_resume c (Ok (file # rest)) s = s\<lparr>files := file # rest, selectedFile := Some (file_id file)\<rparr>"
  "\<not> falsy (selectedFile c) \<Longrightarrow> fetchFiles_resume c (Ok filesData) s = s\<lparr>files := filesData\<rparr>"
  "fetchFiles_resume c Failed s = s\<lparr>toasts := toasts s @ [(''Failed to load files'', ''error'')]\<rparr>"
  by (simp_all add: fetchFiles_resume_def split: list.splits)

lemma fileId_effect_selects:
  "v \<noteq> [] \<Longrightarrow> selectedFile s \<noteq> Some v \<Longrightarrow> fileId_effect (Some v) s = s\<lparr>selectedFile := Some v\<rparr>"
  by (simp add: fileId_effect_def)

lemma step_keeps_unbound:
  assumes "quiet a" "messages s = []" "conversationId s = None"
  shows "messages (step a s) = [] \<and> conversationId (step a s) = None"
proof (cases a)
  case (FileChange f)
  then show ?thesis by (simp add: handleFileChange_def)
next
  case (FileIdEffect fileId)
  with assms show ?thesis by (simp add: fileId_effect_def split: option.splits)
next
  case (FilesFetched c r)
  with assms show ?thesis
    by (simp add: fetchFiles_resume_def split: reply.splits list.splits)
next
  case (LocationEffect convId)
  with assms show ?thesis
    by (simp add: location_effect_def falsy_def split: option.splits)
next
  case SelectionEffect
  with assms show ?thesis
    by (simp add: selection_effect_def initializeConversation_def split: option.splits)
next
  case (TypeInput t)
  with assms show ?thesis by (simp add: setInput_def)
next
  case (SendMessage now)
  with assms show ?thesis by (simp add: handleSendMessage_def falsy_def)
next
  case (SendMessageFrom c now)
  with assms show ?thesis by (simp add: handleSendMessage_rejected)
next
  case (SendReplied now r)
  with assms show ?thesis by (simp add: handleSendMessage_resume_def)
next
  case (StartReplied c now r)
  with assms show ?thesis by (simp add: initializeConversation_resume_def)
next
  case (LoadReplied c clock rand now r)
  with assms show ?thesis
    by (simp add: loadExistingConversation_resume_def initializeConversation_def Let_def)
qed

lemma run_keeps_unbound:
  "\<forall>a \<in> set acts. quiet a \<Longrightarrow> messages s = [] \<Longrightarrow> conversationId s = None \<Longrightarrow>
   messages (run acts s) = [] \<and> conversationId (run acts s) = None"
proof (induction acts arbitrary: s)
  case Nil
  then show ?case by (simp add: run_def)
next
  case (Cons a acts)
  have "run (a # acts) s = run acts (step a s)"
    by (simp add: run_def)
  moreover from Cons.prems have "quiet a" "\<forall>b \<in> set acts. quiet b"
    by simp_all
  moreover note step_keeps_unbound [OF \<open>quiet a\<close> Cons.prems(2,3)]
  ultimately show ?case
    using Cons.IH [of "step a s"] by simp
qed

lemma loadedMessages_shape:
  "map (\<lambda>m. (msg_role m, content m, timestamp m)) (loadedMessages clock rand i history) =
     concat (map (\<lambda>item. [(User, question item, DateOf (item_timestamp item)),
                           (Assistant, response item, DateOf (item_timestamp item))]) history)"
  by (induction history arbitrary: i) simp_all

lemma length_loadedMessages: "length (loadedMessages clock rand i history) = 2 * length history"
  by (induction history arbitrary: i) simp_all

section \<open>Claims about the file-based chat page\<close>

text \<open>
  Claim C5, as the code has it. Right after \<^verbatim>\<open>handleFileChange\<close>, the handler of the
  file select, the transcript is empty, no conversation is bound and the chosen
  file is selected. Both stay so
  through every sequence of transitions that bring no backend success, no
  conversation id from the location and no send accepted by an earlier render
  (further file choices, effects, typing, sends from the latest render, failed
  calls). The reply to a send issued earlier binds no conversation. When the start
  of a conversation then succeeds, its id is bound and the transcript holds the
  welcome message.
\<close>

theorem handleFileChange_resets_until_resolution:
  "messages (handleFileChange f s) = [] \<and> conversationId (handleFileChange f s) = None
   \<and> selectedFile (handleFileChange f s) = Some f
   \<and> ((\<forall>a \<in> set acts. quiet a) \<longrightarrow>
        messages (run acts (handleFileChange f s)) = []
      \<and> conversationId (run acts (handleFileChange f s)) = None
      \<and> conversationId (handleSendMessage_resume later r (run acts (handleFileChange f s))) = None
      \<and> conversationId (initializeConversation_resume c now (Ok cid) (run acts (handleFileChange f s)))
          = Some cid
      \<and> messages (initializeConversation_resume c now (Ok cid) (run acts (handleFileChange f s)))
          = [welcomeMessage (selectedFileName c) now])"
proof -
  have reply: "conversationId (handleSendMessage_resume later r t) = conversationId t" for t
    by (cases r) (simp_all add: handleSendMessage_resume_def Let_def split: option.splits)
  have start: "messages (handleFileChange f s) = []" "conversationId (handleFileChange f s) = None"
    "selectedFile (handleFileChange f s) = Some f"
    by (simp_all add: handleFileChange_def)
  have "messages (run acts (handleFileChange f s)) = []
      \<and> conversationId (run acts (handleFileChange f s)) = None"
    if "\<forall>a \<in> set acts. quiet a"
    using run_keeps_unbound [OF that start(1,2)] .
  with start show ?thesis
    by (simp add: initializeConversation_resume_def reply)
qed

theorem handleFileChange_resets_until_resolution_witness:
  "list_all quiet [SelectionEffect, SendMessage 5, FileChange ''A'', TypeInput ''hi'', SendMessage 6,
        StartReplied page_A 7 Failed, FileIdEffect (Some ''B''), FilesFetched page_A Failed,
        SendReplied 8 Failed]
   \<and> messages (run [SelectionEffect, SendMessage 5, FileChange ''A'', TypeInput ''hi'', SendMessage 6,
        StartReplied page_A 7 Failed, FileIdEffect (Some ''B''), FilesFetched page_A Failed,
        SendReplied 8 Failed]
       (handleFileChange ''B'' page_A)) = []
   \<and> conversationId (run [SelectionEffect, SendMessage 5, FileChange ''A'', TypeInput ''hi'', SendMessage 6,
        StartReplied page_A 7 Failed, FileIdEffect (Some ''B''), FilesFetched page_A Failed,
        SendReplied 8 Failed]
       (handleFileChange ''B'' page_A)) = None"
proof -
  have q: "\<forall>a \<in> set [SelectionEffect, SendMessage 5, FileChange ''A'', TypeInput ''hi'', SendMessage 6,
        StartReplied page_A 7 Failed, FileIdEffect (Some ''B''), FilesFetched page_A Failed,
        SendReplied 8 Failed]. quiet a"
    by simp
  from handleFileChange_resets_until_resolution
    [of "''B''" page_A "[SelectionEffect, SendMessage 5, FileChange ''A'', TypeInput ''hi'', SendMessage 6,
        StartReplied page_A 7 Failed, FileIdEffect (Some ''B''), FilesFetched page_A Failed,
        SendReplied 8 Failed]"] q
  show ?thesis
    by (simp add: list_all_iff)
qed

text \<open>
  Claim C5 as stated fails, in two ways. A send is pending when file \<open>B\<close> is
  chosen; the selection effect has issued the start of a conversation, which is
  pending too; the reply to the send arrives first, and the transcript is not empty
  although no conversation is bound yet. And when file \<open>B\<close> becomes selected
  through the file id of the route, after an exchange under file \<open>A\<close>, neither the
  transcript nor the conversation id is reset.
\<close>

theorem reply_before_resolution_counterexample:
  "snd (selection_effect (handleFileChange ''B'' page_A_sending))
   \<and> network (fst (selection_effect (handleFileChange ''B'' page_A_sending))) =
       [SendChatMessage ''how many rows?'' ''A'' ''c1'' ''local'', StartConversation]
   \<and> conversationId (handleSendMessage_resume 2
        (Ok \<lparr>resp_response = ''42 rows'', resp_embedding_provider = None\<rparr>)
        (fst (selection_effect (handleFileChange ''B'' page_A_sending)))) = None
   \<and> messages (handleSendMessage_resume 2
        (Ok \<lparr>resp_response = ''42 rows'', resp_embedding_provider = None\<rparr>)
        (fst (selection_effect (handleFileChange ''B'' page_A_sending)))) =
       [\<lparr>msg_id = ResponseId 2, msg_role = Assistant, content = ''42 rows'', timestamp = Clock 2\<rparr>]
   \<and> selectedFile (fileId_effect (Some ''B'') (handleSendMessage_resume 2
        (Ok \<lparr>resp_response = ''42 rows'', resp_embedding_provider = None\<rparr>) page_A_sending)) = Some ''B''
   \<and> conversationId (fileId_effect (Some ''B'') (handleSendMessage_resume 2
        (Ok \<lparr>resp_response = ''42 rows'', resp_embedding_provider = None\<rparr>) page_A_sending)) = Some ''c1''
   \<and> messages (fileId_effect (Some ''B'') (handleSendMessage_resume 2
        (Ok \<lparr>resp_response = ''42 rows'', resp_embedding_provider = None\<rparr>) page_A_sending)) =
       [\<lparr>msg_id = NowId 1, msg_role = User, content = ''how many rows?'', timestamp = Clock 1\<rparr>,
        \<lparr>msg_id = ResponseId 2, msg_role = Assistant, content = ''42 rows'', timestamp = Clock 2\<rparr>]"
  unfolding page_A_sending_def handleSendMessage_page_A
  by (simp add: handleFileChange_def selection_effect_def initializeConversation_def
      handleSendMessage_resume_def fileId_effect_def falsy_def page_A_def)

text \<open>
  Claim C1, as the code has it. The page keeps no epoch or generation: the
  continuation of \<^verbatim>\<open>handleSendMessage\<close> appends the reply to whatever transcript is
  current. When a file is chosen while a send is pending, the transcript is cleared,
  and when the send then succeeds (directly, or after any further transitions that
  leave the page unbound), the transcript of the newly selected file consists of that
  reply.
\<close>

theorem stale_reply_is_appended:
  "messages (handleFileChange fileB (fst (handleSendMessage now c s))) = []
   \<and> selectedFile (handleSendMessage_resume later (Ok resp)
        (handleFileChange fileB (fst (handleSendMessage now c s)))) = Some fileB
   \<and> messages (handleSendMessage_resume later (Ok resp)
        (handleFileChange fileB (fst (handleSendMessage now c s)))) =
       [\<lparr>msg_id = ResponseId later, msg_role = Assistant, content = resp_response resp,
         timestamp = Clock later\<rparr>]
   \<and> ((\<forall>a \<in> set acts. quiet a) \<longrightarrow>
       messages (handleSendMessage_resume later (Ok resp)
          (run acts (handleFileChange fileB (fst (handleSendMessage now c s))))) =
         [\<lparr>msg_id = ResponseId later, msg_role = Assistant, content = resp_response resp,
           timestamp = Clock later\<rparr>])"
proof -
  have resume: "messages (handleSendMessage_resume later (Ok resp) t) =
      messages t @ [\<lparr>msg_id = ResponseId later, msg_role = Assistant,
                      content = resp_response resp, timestamp = Clock later\<rparr>]"
    "selectedFile (handleSendMessage_resume later (Ok resp) t) = selectedFile t" for t
    by (simp_all add: handleSendMessage_resume_def Let_def split: option.splits)
  have cleared: "messages (handleFileChange fileB t) = []"
    "conversationId (handleFileChange fileB t) = None"
    "selectedFile (handleFileChange fileB t) = Some fileB" for t
    by (simp_all add: handleFileChange_def)
  have "messages (run acts (handleFileChange fileB (fst (handleSendMessage now c s)))) = []"
    if "\<forall>a \<in> set acts. quiet a"
    using run_keeps_unbound [OF that cleared(1,2)] by simp
  then show ?thesis
    by (simp add: resume cleared)
qed

theorem stale_reply_is_appended_witness:
  "quiet SelectionEffect \<and> quiet (StartReplied page_A 0 Failed)
   \<and> messages (handleSendMessage_resume 2 (Ok \<lparr>resp_response = ''42 rows'', resp_embedding_provider = None\<rparr>)
        (run [SelectionEffect, StartReplied page_A 0 Failed]
           (handleFileChange ''B'' (fst (handleSendMessage 1 page_A page_A))))) =
       [\<lparr>msg_id = ResponseId 2, msg_role = Assistant, content = ''42 rows'', timestamp = Clock 2\<rparr>]"
proof -
  have q: "\<forall>a \<in> set [SelectionEffect, StartReplied page_A 0 Failed]. quiet a"
    by simp
  from stale_reply_is_appended
    [of "''B''" 1 page_A page_A 2 "\<lparr>resp_response = ''42 rows'', resp_embedding_provider = None\<rparr>"
      "[SelectionEffect, StartReplied page_A 0 Failed]"] q
  show ?thesis
    by simp
qed

text \<open>
  Claim C1 as stated fails: a send is issued under file \<open>A\<close>, file \<open>B\<close> is chosen
  while it is pending, the send succeeds, and the assistant message is the
  transcript shown for \<open>B\<close>.
\<close>

theorem stale_reply_counterexample:
  "snd (handleSendMessage 1 page_A page_A)
   \<and> selectedFile (fst (handleSendMessage 1 page_A page_A)) = Some ''A''
   \<and> selectedFile (handleSendMessage_resume 2
        (Ok \<lparr>resp_response = ''42 rows'', resp_embedding_provider = None\<rparr>)
        (handleFileChange ''B'' (fst (handleSendMessage 1 page_A page_A)))) = Some ''B''
   \<and> messages (handleSendMessage_resume 2
        (Ok \<lparr>resp_response = ''42 rows'', resp_embedding_provider = None\<rparr>)
        (handleFileChange ''B'' (fst (handleSendMessage 1 page_A page_A)))) =
       [\<lparr>msg_id = ResponseId 2, msg_role = Assistant, content = ''42 rows'', timestamp = Clock 2\<rparr>]"
  unfolding handleSendMessage_page_A
  by (simp add: handleFileChange_def handleSendMessage_resume_def page_A_def)

text \<open>
  Claim C6, amended to a fetched list that is not empty. When
  \<^verbatim>\<open>getConversationMessages\<close> succeeds with at least one record, the transcript becomes
  the flattened list: twice as many messages as records, and, record by record in
  the order fetched, a user message with the question followed by an assistant
  message with the response, both with the date of the record's timestamp.
\<close>

theorem loadExistingConversation_flattens:
  assumes "history \<noteq> []"
  shows "messages (fst (loadExistingConversation_resume c clock rand now (Ok history) s)) =
           loadedMessages clock rand 0 history
       \<and> length (messages (fst (loadExistingConversation_resume c clock rand now (Ok history) s))) =
           2 * length history
       \<and> map (\<lambda>m. (msg_role m, content m, timestamp m))
           (messages (fst (loadExistingConversation_resume c clock rand now (Ok history) s))) =
           concat (map (\<lambda>item. [(User, question item, DateOf (item_timestamp item)),
                                 (Assistant, response item, DateOf (item_timestamp item))]) history)"
proof -
  from assms have "length (loadedMessages clock rand 0 history) \<noteq> 0"
    by (simp add: length_loadedMessages)
  then have "messages (fst (loadExistingConversation_resume c clock rand now (Ok history) s)) =
      loadedMessages clock rand 0 history"
    by (simp add: loadExistingConversation_resume_def Let_def)
  then show ?thesis
    by (simp add: length_loadedMessages loadedMessages_shape)
qed

theorem loadExistingConversation_flattens_witness:
  "messages (fst (loadExistingConversation_resume page_A (\<lambda>i. 100 + i) (\<lambda>i. i) 7
      (Ok [\<lparr>question = ''q1'', response = ''a1'', item_timestamp = ''2024-01-01'',
             item_conversation_id = ''c1'', item_file_id = ''A''\<rparr>]) page_A)) =
    [\<lparr>msg_id = UserId 100 0, msg_role = User, content = ''q1'', timestamp = DateOf ''2024-01-01''\<rparr>,
     \<lparr>msg_id = AssistantId 101 1, msg_role = Assistant, content = ''a1'',
       timestamp = DateOf ''2024-01-01''\<rparr>]"
  using loadExistingConversation_flattens
    [of "[\<lparr>question = ''q1'', response = ''a1'', item_timestamp = ''2024-01-01'',
             item_conversation_id = ''c1'', item_file_id = ''A''\<rparr>]"
      page_A "\<lambda>i. 100 + i" "\<lambda>i. i" 7 page_A]
  by simp

text \<open>
  Claim C6 as stated fails for an empty fetched list: zero records do not give a
  transcript of zero messages.
\<close>

theorem loadExistingConversation_empty_counterexample:
  "length (messages (fst (loadExistingConversation_resume page_A Suc Suc 7 (Ok []) page_A)))
     \<noteq> 2 * length ([] :: HistoryItem list)"
  by (simp add: loadExistingConversation_resume_def)

text \<open>
  Claim C10. When \<^verbatim>\<open>getConversationMessages\<close> succeeds with an empty list, the
  transcript becomes exactly one message, the assistant's welcome-back message with
  the id \<^verbatim>\<open>welcome-back\<close>; it is not empty, and no backend call is made for it.
\<close>

theorem loadExistingConversation_welcome_back:
  "loadExistingConversation_resume c clock rand now (Ok []) s =
     (s\<lparr>messages := [welcomeBackMessage (selectedFileName c) now], isLoading := False\<rparr>, False)
   \<and> messages (fst (loadExistingConversation_resume c clock rand now (Ok []) s)) \<noteq> []
   \<and> map msg_role (messages (fst (loadExistingConversation_resume c clock rand now (Ok []) s))) = [Assistant]
   \<and> map msg_id (messages (fst (loadExistingConversation_resume c clock rand now (Ok []) s))) = [WelcomeBackId]
   \<and> network (fst (loadExistingConversation_resume c clock rand now (Ok []) s)) = network s"
  by (simp add: loadExistingConversation_resume_def welcomeBackMessage_def)

theorem loadExistingConversation_welcome_back_witness:
  "messages (fst (loadExistingConversation_resume page_A (\<lambda>i. i) (\<lambda>i. i) 7 (Ok []) page_A)) =
     [\<lparr>msg_id = WelcomeBackId, msg_role = Assistant,
       content = ''Welcome back to our conversation about '' @ [CHR 0x22] @ ''a.csv'' @ [CHR 0x22]
                 @ ''. How can I help you?'',
       timestamp = Clock 7\<rparr>]"
  using loadExistingConversation_welcome_back [of page_A "\<lambda>i. i" "\<lambda>i. i" 7 page_A]
  by (simp add: welcomeBackMessage_def page_A_def)

section \<open>Properties of the assistant chat page\<close>

lemma handleSubmit_chat:
  assumes "trim (message c) \<noteq> []" "\<not> a_isLoading c" "\<not> falsy token"
    "currentConversationId c = Some cid" "cid \<noteq> []"
  shows "handleSubmit now later token c s =
     (s\<lparr>a_messages := a_messages s @
          [\<lparr>msg_id = NowId now, msg_role = User, content = message c, timestamp = Clock now\<rparr>],
        a_isLoading := True, message := [],
        a_network := a_network s @ [PostChat (message c) cid]\<rparr>, AwaitChat)"
  using assms by (simp add: handleSubmit_def Let_def)

lemma handleSubmit_start:
  assumes "trim (message c) \<noteq> []" "\<not> a_isLoading c" "\<not> falsy token"
    "falsy (currentConversationId c)"
  shows "handleSubmit now later token c s =
     (s\<lparr>a_messages := a_messages s @
          [\<lparr>msg_id = NowId now, msg_role = User, content = message c, timestamp = Clock now\<rparr>],
        a_isLoading := True, message := [],
        a_network := a_network s @ [PostStartConversation]\<rparr>, AwaitStart)"
  using assms by (auto simp: handleSubmit_def Let_def falsy_def split: option.splits)

lemma handleSubmit_loading:
  "trim (message c) = [] \<or> a_isLoading c \<Longrightarrow> handleSubmit now later token c s = (s, Returned)"
  by (simp add: handleSubmit_def)

lemma handleSubmit_suspended:
  assumes "snd (handleSubmit now later token c s) \<noteq> Returned"
  shows "trim (message c) \<noteq> [] \<and> \<not> a_isLoading c \<and> \<not> falsy token"
  using assms by (auto simp: handleSubmit_def Let_def split: if_splits)

section \<open>Claims about sending a message\<close>

text \<open>
  Claim C2, as the code has it. A send invoked from a render in which the spinner
  flag is set is rejected at once and nothing is queued: \<^verbatim>\<open>handleSubmit\<close> returns at
  its guard, and the file-based page renders its send button and its text area
  disabled. \<^verbatim>\<open>handleSendMessage\<close> has no test of the flag; invoked from a render whose
  input is blank it returns at its guard, and the render that follows an accepted
  send is such a render. On both pages, of two invocations with a render between
  them, the second made from the render that follows the first, only the first is
  accepted: it leaves exactly one optimistic user message and exactly one backend
  request.
\<close>

theorem second_send_rejected_while_loading:
  "(a_isLoading c \<longrightarrow> handleSubmit now later token c a = (a, Returned))
   \<and> (snd (handleSubmit now later token b b) \<noteq> Returned \<longrightarrow>
        handleSubmit now' later' token' (fst (handleSubmit now later token b b))
            (fst (handleSubmit now later token b b)) =
          (fst (handleSubmit now later token b b), Returned)
      \<and> a_messages (fst (handleSubmit now later token b b)) =
          a_messages b @
            [\<lparr>msg_id = NowId now, msg_role = User, content = message b, timestamp = Clock now\<rparr>]
      \<and> length (a_network (fst (handleSubmit now later token b b))) = length (a_network b) + 1)
   \<and> (trim (input d) = [] \<longrightarrow> handleSendMessage now d t = (t, False))
   \<and> (snd (handleSendMessage now s s) \<longrightarrow>
        handleSendMessage now' (fst (handleSendMessage now s s)) (fst (handleSendMessage now s s)) =
          (fst (handleSendMessage now s s), False)
      \<and> messages (fst (handleSendMessage now s s)) =
          messages s @
            [\<lparr>msg_id = NowId now, msg_role = User, content = input s, timestamp = Clock now\<rparr>]
      \<and> length (network (fst (handleSendMessage now s s))) = length (network s) + 1)
   \<and> (isLoading t \<longrightarrow> send_disabled t \<and> textarea_disabled t)"
proof (intro conjI impI)
  assume "a_isLoading c"
  then show "handleSubmit now later token c a = (a, Returned)"
    by (simp add: handleSubmit_loading)
next
  assume h: "snd (handleSubmit now later token b b) \<noteq> Returned"
  from handleSubmit_suspended [OF h]
  have g: "trim (message b) \<noteq> []" "\<not> a_isLoading b" "\<not> falsy token"
    by simp_all
  have loading: "a_isLoading (fst (handleSubmit now later token b b))"
    using g by (auto simp: handleSubmit_def Let_def split: option.splits)
  then show "handleSubmit now' later' token' (fst (handleSubmit now later token b b))
            (fst (handleSubmit now later token b b)) =
          (fst (handleSubmit now later token b b), Returned)"
    by (simp add: handleSubmit_loading)
  show "a_messages (fst (handleSubmit now later token b b)) =
          a_messages b @
            [\<lparr>msg_id = NowId now, msg_role = User, content = message b, timestamp = Clock now\<rparr>]"
    using g by (auto simp: handleSubmit_def Let_def split: option.splits)
  show "length (a_network (fst (handleSubmit now later token b b))) = length (a_network b) + 1"
    using g by (auto simp: handleSubmit_def Let_def split: option.splits)
next
  assume "trim (input d) = []"
  then show "handleSendMessage now d t = (t, False)"
    by (simp add: handleSendMessage_rejected)
next
  assume h: "snd (handleSendMessage now s s)"
  from handleSendMessage_issued [OF h] obtain f cid where
    g: "trim (input s) \<noteq> []" "selectedFile s = Some f" "f \<noteq> []"
       "conversationId s = Some cid" "cid \<noteq> []"
    by blast
  note eq = handleSendMessage_accepted [OF g, of now s]
  show "handleSendMessage now' (fst (handleSendMessage now s s)) (fst (handleSendMessage now s s)) =
          (fst (handleSendMessage now s s), False)"
    by (rule handleSendMessage_rejected) (simp add: eq trim_Nil)
  show "messages (fst (handleSendMessage now s s)) =
          messages s @
            [\<lparr>msg_id = NowId now, msg_role = User, content = input s, timestamp = Clock now\<rparr>]"
    by (simp add: eq)
  show "length (network (fst (handleSendMessage now s s))) = length (network s) + 1"
    by (simp add: eq)
next
  assume "isLoading t"
  then show "send_disabled t" by (simp add: send_disabled_def)
next
  assume "isLoading t"
  then show "textarea_disabled t" by (simp add: textarea_disabled_def)
qed

theorem second_send_rejected_while_loading_witness:
  "handleSubmit 1 2 (Some ''tok'') (page_0\<lparr>a_isLoading := True\<rparr>) page_0 = (page_0, Returned)
   \<and> handleSubmit 3 4 (Some ''tok'') (fst (handleSubmit 1 2 (Some ''tok'') page_0 page_0))
        (fst (handleSubmit 1 2 (Some ''tok'') page_0 page_0)) =
       (fst (handleSubmit 1 2 (Some ''tok'') page_0 page_0), Returned)
   \<and> handleSendMessage 1 (page_A\<lparr>input := []\<rparr>) (fst (handleSendMessage 1 page_A page_A)) =
       (fst (handleSendMessage 1 page_A page_A), False)
   \<and> handleSendMessage 3 (fst (handleSendMessage 1 page_A page_A)) (fst (handleSendMessage 1 page_A page_A)) =
       (fst (handleSendMessage 1 page_A page_A), False)
   \<and> send_disabled (fst (handleSendMessage 1 page_A page_A))"
proof -
  have h1: "a_isLoading (page_0\<lparr>a_isLoading := True\<rparr>)"
    by simp
  have h2: "snd (handleSubmit 1 2 (Some ''tok'') page_0 page_0) \<noteq> Returned"
    by (simp add: handleSubmit_def page_0_def falsy_def trim_page_0)
  have h3: "trim (input (page_A\<lparr>input := []\<rparr>)) = []"
    by (simp add: trim_Nil)
  have h4: "snd (handleSendMessage 1 page_A page_A)"
    by (simp add: handleSendMessage_page_A)
  have h5: "isLoading (fst (handleSendMessage 1 page_A page_A))"
    by (simp add: handleSendMessage_page_A)
  from second_send_rejected_while_loading
    [of "page_0\<lparr>a_isLoading := True\<rparr>" 1 2 "Some ''tok''" page_0 page_0 3 4 "Some ''tok''"
      "page_A\<lparr>input := []\<rparr>" "fst (handleSendMessage 1 page_A page_A)" page_A]
    h1 h2 h3 h4 h5
  show ?thesis
    by blast
qed

text \<open>
  Claim C2 as stated fails, in two ways. Two invocations of \<^verbatim>\<open>handleSendMessage\<close>,
  or of \<^verbatim>\<open>handleSubmit\<close>, from the same render both pass the guard, since the text and
  the flag they read are constants of that render: two user messages, two requests. And the flag
  is shared with the loading of a conversation, whose completion clears it: with
  the first send still unanswered the text area and the button are enabled again,
  the user types, and a second send is accepted from the latest render.
\<close>

theorem two_sends_in_flight_counterexample:
  "snd (handleSendMessage 1 page_A page_A)
   \<and> snd (handleSendMessage 2 page_A (fst (handleSendMessage 1 page_A page_A)))
   \<and> network (fst (handleSendMessage 2 page_A (fst (handleSendMessage 1 page_A page_A)))) =
       [SendChatMessage ''how many rows?'' ''A'' ''c1'' ''local'',
        SendChatMessage ''how many rows?'' ''A'' ''c1'' ''local'']
   \<and> map msg_role (messages (fst (handleSendMessage 2 page_A (fst (handleSendMessage 1 page_A page_A))))) =
       [User, User]
   \<and> snd (handleSubmit 3 4 (Some ''tok'') page_0 (fst (handleSubmit 1 2 (Some ''tok'') page_0 page_0))) =
       AwaitStart
   \<and> map msg_role (a_messages (fst (handleSubmit 3 4 (Some ''tok'') page_0
          (fst (handleSubmit 1 2 (Some ''tok'') page_0 page_0))))) = [User, User]
   \<and> a_network (fst (handleSubmit 3 4 (Some ''tok'') page_0
          (fst (handleSubmit 1 2 (Some ''tok'') page_0 page_0)))) =
       [PostStartConversation, PostStartConversation]
   \<and> \<not> textarea_disabled page_A_reloaded
   \<and> \<not> send_disabled (setInput ''and columns?'' page_A_reloaded)
   \<and> snd (handleSendMessage 3 (setInput ''and columns?'' page_A_reloaded)
            (setInput ''and columns?'' page_A_reloaded))
   \<and> network (fst (handleSendMessage 3 (setInput ''and columns?'' page_A_reloaded)
                     (setInput ''and columns?'' page_A_reloaded))) =
       [SendChatMessage ''how many rows?'' ''A'' ''c1'' ''local'',
        GetConversationMessages ''c2'',
        SendChatMessage ''and columns?'' ''A'' ''c2'' ''local'']"
  unfolding page_A_reloaded_def page_A_sending_def handleSendMessage_page_A
  by (simp add: location_effect_def loadExistingConversation_def loadExistingConversation_resume_def
      setInput_def handleSendMessage_def textarea_disabled_def send_disabled_def falsy_def
      page_A_def trim_columns handleSubmit_def page_0_def trim_page_0)

text \<open>
  Claim C3, as the code has it. On the assistant page a failed backend call of a
  send (the chat request, with the conversation bound before or started by this
  send, or the start of the conversation) leaves the optimistic user message
  followed by one assistant message with the fixed text
  \<^verbatim>\<open>Sorry, I encountered an error. Please try again.\<close>, and clears the spinner. On the
  file-based page a failed chat request leaves the optimistic user message and no
  assistant message, shows the toast \<^verbatim>\<open>Failed to send message\<close>, and clears the
  spinner.
\<close>

theorem failed_send_keeps_user_message:
  "(trim (message a) \<noteq> [] \<and> \<not> a_isLoading a \<and> \<not> falsy token
      \<and> \<not> falsy (currentConversationId a) \<longrightarrow>
      snd (handleSubmit now later token a a) = AwaitChat
    \<and> a_messages (handleSubmit_answered a after token' userId Failed
          (fst (handleSubmit now later token a a))) =
        a_messages a @
          [\<lparr>msg_id = NowId now, msg_role = User, content = message a, timestamp = Clock now\<rparr>,
           \<lparr>msg_id = NowIdPlus after 2, msg_role = Assistant,
             content = ''Sorry, I encountered an error. Please try again.'',
             timestamp = Clock after\<rparr>]
    \<and> \<not> a_isLoading (handleSubmit_answered a after token' userId Failed
          (fst (handleSubmit now later token a a))))
   \<and> (trim (message b) \<noteq> [] \<and> \<not> a_isLoading b \<and> \<not> falsy token
      \<and> falsy (currentConversationId b) \<longrightarrow>
      snd (handleSubmit now later token b b) = AwaitStart
    \<and> handleSubmit_started b after Failed (fst (handleSubmit now later token b b)) =
        ((fst (handleSubmit now later token b b))
           \<lparr>a_messages := a_messages b @
              [\<lparr>msg_id = NowId now, msg_role = User, content = message b, timestamp = Clock now\<rparr>,
               \<lparr>msg_id = NowIdPlus after 2, msg_role = Assistant,
                 content = ''Sorry, I encountered an error. Please try again.'',
                 timestamp = Clock after\<rparr>],
            a_isLoading := False\<rparr>, Returned)
    \<and> snd (handleSubmit_started b mid (Ok cid) (fst (handleSubmit now later token b b))) = AwaitChat
    \<and> a_messages (handleSubmit_answered b after token' userId Failed
          (fst (handleSubmit_started b mid (Ok cid) (fst (handleSubmit now later token b b))))) =
        a_messages b @
          [\<lparr>msg_id = NowId now, msg_role = User, content = message b, timestamp = Clock now\<rparr>,
           \<lparr>msg_id = NowIdPlus after 2, msg_role = Assistant,
             content = ''Sorry, I encountered an error. Please try again.'',
             timestamp = Clock after\<rparr>]
    \<and> \<not> a_isLoading (handleSubmit_answered b after token' userId Failed
          (fst (handleSubmit_started b mid (Ok cid) (fst (handleSubmit now later token b b))))))
   \<and> (trim (input s) \<noteq> [] \<and> \<not> falsy (selectedFile s) \<and> \<not> falsy (conversationId s) \<longrightarrow>
      snd (handleSendMessage now s s)
    \<and> messages (handleSendMessage_resume after Failed (fst (handleSendMessage now s s))) =
        messages s @
          [\<lparr>msg_id = NowId now, msg_role = User, content = input s, timestamp = Clock now\<rparr>]
    \<and> toasts (handleSendMessage_resume after Failed (fst (handleSendMessage now s s))) =
        toasts s @ [(''Failed to send message'', ''error'')]
    \<and> \<not> isLoading (handleSendMessage_resume after Failed (fst (handleSendMessage now s s))))"
proof (intro conjI impI)
  assume h: "trim (message a) \<noteq> [] \<and> \<not> a_isLoading a \<and> \<not> falsy token
      \<and> \<not> falsy (currentConversationId a)"
  then obtain cid where cid: "currentConversationId a = Some cid" "cid \<noteq> []"
    using truthy_cases by blast
  note eq = handleSubmit_chat [of a token cid now later a]
  from h cid show "snd (handleSubmit now later token a a) = AwaitChat"
    by (simp add: eq)
  from h cid show "a_messages (handleSubmit_answered a after token' userId Failed
          (fst (handleSubmit now later token a a))) =
        a_messages a @
          [\<lparr>msg_id = NowId now, msg_role = User, content = message a, timestamp = Clock now\<rparr>,
           \<lparr>msg_id = NowIdPlus after 2, msg_role = Assistant,
             content = ''Sorry, I encountered an error. Please try again.'',
             timestamp = Clock after\<rparr>]"
    by (simp add: eq handleSubmit_answered_def handleSubmit_catch_def errorMessage_def)
  from h cid show "\<not> a_isLoading (handleSubmit_answered a after token' userId Failed
          (fst (handleSubmit now later token a a)))"
    by (simp add: eq handleSubmit_answered_def handleSubmit_catch_def)
next
  assume h: "trim (message b) \<noteq> [] \<and> \<not> a_isLoading b \<and> \<not> falsy token
      \<and> falsy (currentConversationId b)"
  note eq = handleSubmit_start [of b token now later b]
  from h show "snd (handleSubmit now later token b b) = AwaitStart"
    by (simp add: eq)
  from h show "handleSubmit_started b after Failed (fst (handleSubmit now later token b b)) =
        ((fst (handleSubmit now later token b b))
           \<lparr>a_messages := a_messages b @
              [\<lparr>msg_id = NowId now, msg_role = User, content = message b, timestamp = Clock now\<rparr>,
               \<lparr>msg_id = NowIdPlus after 2, msg_role = Assistant,
                 content = ''Sorry, I encountered an error. Please try again.'',
                 timestamp = Clock after\<rparr>],
            a_isLoading := False\<rparr>, Returned)"
    by (simp add: eq handleSubmit_started_def handleSubmit_catch_def errorMessage_def)
  show "snd (handleSubmit_started b mid (Ok cid) (fst (handleSubmit now later token b b))) = AwaitChat"
    by (simp add: handleSubmit_started_def)
  from h show "a_messages (handleSubmit_answered b after token' userId Failed
          (fst (handleSubmit_started b mid (Ok cid) (fst (handleSubmit now later token b b))))) =
        a_messages b @
          [\<lparr>msg_id = NowId now, msg_role = User, content = message b, timestamp = Clock now\<rparr>,
           \<lparr>msg_id = NowIdPlus after 2, msg_role = Assistant,
             content = ''Sorry, I encountered an error. Please try again.'',
             timestamp = Clock after\<rparr>]"
    by (simp add: eq handleSubmit_started_def handleSubmit_answered_def handleSubmit_catch_def
        errorMessage_def)
  from h show "\<not> a_isLoading (handleSubmit_answered b after token' userId Failed
          (fst (handleSubmit_started b mid (Ok cid) (fst (handleSubmit now later token b b)))))"
    by (simp add: eq handleSubmit_started_def handleSubmit_answered_def handleSubmit_catch_def)
next
  assume h: "trim (input s) \<noteq> [] \<and> \<not> falsy (selectedFile s) \<and> \<not> falsy (conversationId s)"
  then obtain f cid where fc: "selectedFile s = Some f" "f \<noteq> []"
    "conversationId s = Some cid" "cid \<noteq> []"
    using truthy_cases by blast
  note eq = handleSendMessage_accepted [of s f cid now s]
  from h fc show "snd (handleSendMessage now s s)"
    by (simp add: eq)
  from h fc show "messages (handleSendMessage_resume after Failed (fst (handleSendMessage now s s))) =
        messages s @
          [\<lparr>msg_id = NowId now, msg_role = User, content = input s, timestamp = Clock now\<rparr>]"
    by (simp add: eq handleSendMessage_resume_def)
  from h fc show "toasts (handleSendMessage_resume after Failed (fst (handleSendMessage now s s))) =
        toasts s @ [(''Failed to send message'', ''error'')]"
    by (simp add: eq handleSendMessage_resume_def)
  from h fc show "\<not> isLoading (handleSendMessage_resume after Failed (fst (handleSendMessage now s s)))"
    by (simp add: eq handleSendMessage_resume_def)
qed

theorem failed_send_keeps_user_message_witness:
  "a_messages (handleSubmit_answered (page_0\<lparr>currentConversationId := Some ''c7''\<rparr>) 3 (Some ''tok'') None Failed
      (fst (handleSubmit 1 2 (Some ''tok'') (page_0\<lparr>currentConversationId := Some ''c7''\<rparr>)
              (page_0\<lparr>currentConversationId := Some ''c7''\<rparr>)))) =
     [\<lparr>msg_id = NowId 1, msg_role = User, content = ''where is my parcel?'', timestamp = Clock 1\<rparr>,
      \<lparr>msg_id = NowIdPlus 3 2, msg_role = Assistant,
        content = ''Sorry, I encountered an error. Please try again.'', timestamp = Clock 3\<rparr>]
   \<and> a_messages (handleSubmit_answered page_0 3 (Some ''tok'') None Failed
        (fst (handleSubmit_started page_0 9 (Ok ''c9'') (fst (handleSubmit 1 2 (Some ''tok'') page_0 page_0))))) =
     [\<lparr>msg_id = NowId 1, msg_role = User, content = ''where is my parcel?'', timestamp = Clock 1\<rparr>,
      \<lparr>msg_id = NowIdPlus 3 2, msg_role = Assistant,
        content = ''Sorry, I encountered an error. Please try again.'', timestamp = Clock 3\<rparr>]
   \<and> messages (handleSendMessage_resume 3 Failed (fst (handleSendMessage 1 page_A page_A))) =
     [\<lparr>msg_id = NowId 1, msg_role = User, content = ''how many rows?'', timestamp = Clock 1\<rparr>]"
proof -
  have h1: "trim (message (page_0\<lparr>currentConversationId := Some ''c7''\<rparr>)) \<noteq> []
      \<and> \<not> a_isLoading (page_0\<lparr>currentConversationId := Some ''c7''\<rparr>) \<and> \<not> falsy (Some ''tok'')
      \<and> \<not> falsy (currentConversationId (page_0\<lparr>currentConversationId := Some ''c7''\<rparr>))"
    by (simp add: page_0_def falsy_def trim_page_0)
  have h2: "trim (message page_0) \<noteq> [] \<and> \<not> a_isLoading page_0 \<and> \<not> falsy (Some ''tok'')
      \<and> falsy (currentConversationId page_0)"
    by (simp add: page_0_def falsy_def trim_page_0)
  have h3: "trim (input page_A) \<noteq> [] \<and> \<not> falsy (selectedFile page_A) \<and> \<not> falsy (conversationId page_A)"
    by (simp add: page_A_def falsy_def trim_page_A)
  have v: "a_messages (page_0\<lparr>currentConversationId := Some ''c7''\<rparr>) = []" "a_messages page_0 = []"
    "message (page_0\<lparr>currentConversationId := Some ''c7''\<rparr>) = ''where is my parcel?''"
    "message page_0 = ''where is my parcel?''" "messages page_A = []" "input page_A = ''how many rows?''"
    by (simp_all add: page_0_def page_A_def)
  from failed_send_keeps_user_message
    [of "page_0\<lparr>currentConversationId := Some ''c7''\<rparr>" "Some ''tok''" 1 2 3 "Some ''tok''" None
      page_0 9 "''c9''" page_A] h1 h2 h3
  show ?thesis
    unfolding v by simp
qed

text \<open>
  Claim C3 as stated fails on the file-based page: after a failed send the
  transcript has gained the user message only.
\<close>

theorem failed_send_no_apology_counterexample:
  "snd (handleSendMessage 1 page_A page_A)
   \<and> messages (handleSendMessage_resume 2 Failed (fst (handleSendMessage 1 page_A page_A))) =
       [\<lparr>msg_id = NowId 1, msg_role = User, content = ''how many rows?'', timestamp = Clock 1\<rparr>]
   \<and> toasts (handleSendMessage_resume 2 Failed (fst (handleSendMessage 1 page_A page_A))) =
       [(''Failed to send message'', ''error'')]"
  unfolding handleSendMessage_page_A
  by (simp add: handleSendMessage_resume_def page_A_def)

text \<open>
  Claim C7, as the code has it. On the assistant page a send without a conversation
  first posts the start of a conversation, and when that succeeds posts the chat
  request with the id obtained and binds it. On the file-based page
  \<^verbatim>\<open>handleSendMessage\<close> without a conversation id returns at its guard: nothing is
  sent and the state is unchanged.
\<close>

theorem send_without_conversation:
  "(trim (message a) \<noteq> [] \<and> \<not> a_isLoading a \<and> \<not> falsy token
      \<and> falsy (currentConversationId a) \<longrightarrow>
      handleSubmit now later token a a =
        (a\<lparr>a_messages := a_messages a @
             [\<lparr>msg_id = NowId now, msg_role = User, content = message a, timestamp = Clock now\<rparr>],
           a_isLoading := True, message := [],
           a_network := a_network a @ [PostStartConversation]\<rparr>, AwaitStart)
    \<and> snd (handleSubmit_started a after (Ok cid) (fst (handleSubmit now later token a a))) = AwaitChat
    \<and> currentConversationId (fst (handleSubmit_started a after (Ok cid)
          (fst (handleSubmit now later token a a)))) = Some cid
    \<and> a_network (fst (handleSubmit_started a after (Ok cid) (fst (handleSubmit now later token a a)))) =
        a_network a @ [PostStartConversation, PostChat (message a) cid])
   \<and> (falsy (conversationId s) \<longrightarrow> handleSendMessage now s s = (s, False))"
proof (intro conjI impI)
  assume h: "trim (message a) \<noteq> [] \<and> \<not> a_isLoading a \<and> \<not> falsy token
      \<and> falsy (currentConversationId a)"
  then have eq: "handleSubmit now later token a a =
        (a\<lparr>a_messages := a_messages a @
             [\<lparr>msg_id = NowId now, msg_role = User, content = message a, timestamp = Clock now\<rparr>],
           a_isLoading := True, message := [],
           a_network := a_network a @ [PostStartConversation]\<rparr>, AwaitStart)"
    by (simp add: handleSubmit_start)
  then show "handleSubmit now later token a a =
        (a\<lparr>a_messages := a_messages a @
             [\<lparr>msg_id = NowId now, msg_role = User, content = message a, timestamp = Clock now\<rparr>],
           a_isLoading := True, message := [],
           a_network := a_network a @ [PostStartConversation]\<rparr>, AwaitStart)" .
  show "snd (handleSubmit_started a after (Ok cid) (fst (handleSubmit now later token a a))) = AwaitChat"
    by (simp add: handleSubmit_started_def)
  show "currentConversationId (fst (handleSubmit_started a after (Ok cid)
          (fst (handleSubmit now later token a a)))) = Some cid"
    by (simp add: handleSubmit_started_def)
  show "a_network (fst (handleSubmit_started a after (Ok cid) (fst (handleSubmit now later token a a)))) =
        a_network a @ [PostStartConversation, PostChat (message a) cid]"
    by (simp add: eq handleSubmit_started_def)
next
  assume "falsy (conversationId s)"
  then show "handleSendMessage now s s = (s, False)"
    by (simp add: handleSendMessage_rejected)
qed

theorem send_without_conversation_witness:
  "a_network (fst (handleSubmit_started page_0 3 (Ok ''c9'') (fst (handleSubmit 1 2 (Some ''tok'') page_0 page_0)))) =
     [PostStartConversation, PostChat ''where is my parcel?'' ''c9'']
   \<and> handleSendMessage 1 (page_A\<lparr>conversationId := None\<rparr>) (page_A\<lparr>conversationId := None\<rparr>) =
       (page_A\<lparr>conversationId := None\<rparr>, False)"
  using send_without_conversation
    [of page_0 "Some ''tok''" 1 2 3 "''c9''" "page_A\<lparr>conversationId := None\<rparr>"]
  by (simp add: page_0_def falsy_def trim_page_0 handleSubmit_def handleSubmit_started_def)

text \<open>
  Claim C7 as stated fails on the file-based page: with a text, a selected file and
  no conversation id the send is rejected, and no backend call is made.
\<close>

theorem send_without_conversation_counterexample:
  "trim (input (page_A\<lparr>conversationId := None\<rparr>)) \<noteq> []
   \<and> selectedFile (page_A\<lparr>conversationId := None\<rparr>) = Some ''A''
   \<and> conversationId (page_A\<lparr>conversationId := None\<rparr>) = None
   \<and> handleSendMessage 1 (page_A\<lparr>conversationId := None\<rparr>) (page_A\<lparr>conversationId := None\<rparr>) =
       (page_A\<lparr>conversationId := None\<rparr>, False)
   \<and> network (fst (handleSendMessage 1 (page_A\<lparr>conversationId := None\<rparr>)
        (page_A\<lparr>conversationId := None\<rparr>))) = []"
  by (simp add: handleSendMessage_def falsy_def page_A_def trim_page_A)

text \<open>
  Claim C9. A successful send with a conversation bound leaves the selected file
  and the conversation id as they were and appends exactly the optimistic user
  message and the assistant reply; on the file-based page the embedding provider
  becomes the one of the response when it names one, and the list of files, the
  file name, the toasts and the navigations are unchanged; the spinner is cleared
  (the draft in the input was emptied when the send began). On the assistant page
  no further backend call follows the reply.
\<close>

theorem successful_send_frame:
  "(trim (input s) \<noteq> [] \<and> \<not> falsy (selectedFile s) \<and> \<not> falsy (conversationId s) \<longrightarrow>
      snd (handleSendMessage now s s)
    \<and> selectedFile (handleSendMessage_resume after (Ok resp) (fst (handleSendMessage now s s))) = selectedFile s
    \<and> conversationId (handleSendMessage_resume after (Ok resp) (fst (handleSendMessage now s s))) = conversationId s
    \<and> messages (handleSendMessage_resume after (Ok resp) (fst (handleSendMessage now s s))) =
        messages s @
          [\<lparr>msg_id = NowId now, msg_role = User, content = input s, timestamp = Clock now\<rparr>,
           \<lparr>msg_id = ResponseId after, msg_role = Assistant, content = resp_response resp,
             timestamp = Clock after\<rparr>]
    \<and> embeddingProvider (handleSendMessage_resume after (Ok resp) (fst (handleSendMessage now s s))) =
        (case resp_embedding_provider resp of
           None \<Rightarrow> embeddingProvider s
         | Some p \<Rightarrow> if p = [] then embeddingProvider s else p)
    \<and> files (handleSendMessage_resume after (Ok resp) (fst (handleSendMessage now s s))) = files s
    \<and> selectedFileName (handleSendMessage_resume after (Ok resp) (fst (handleSendMessage now s s))) =
        selectedFileName s
    \<and> toasts (handleSendMessage_resume after (Ok resp) (fst (handleSendMessage now s s))) = toasts s
    \<and> navigations (handleSendMessage_resume after (Ok resp) (fst (handleSendMessage now s s))) =
        navigations s
    \<and> \<not> isLoading (handleSendMessage_resume after (Ok resp) (fst (handleSendMessage now s s))))
   \<and> (trim (message a) \<noteq> [] \<and> \<not> a_isLoading a \<and> \<not> falsy token
      \<and> \<not> falsy (currentConversationId a) \<longrightarrow>
      snd (handleSubmit now later token a a) = AwaitChat
    \<and> currentConversationId (handleSubmit_answered a after token userId (Ok text)
          (fst (handleSubmit now later token a a))) = currentConversationId a
    \<and> a_messages (handleSubmit_answered a after token userId (Ok text)
          (fst (handleSubmit now later token a a))) =
        a_messages a @
          [\<lparr>msg_id = NowId now, msg_role = User, content = message a, timestamp = Clock now\<rparr>,
           \<lparr>msg_id = NowIdPlus after 1, msg_role = Assistant, content = text, timestamp = Clock after\<rparr>]
    \<and> \<not> a_isLoading (handleSubmit_answered a after token userId (Ok text)
          (fst (handleSubmit now later token a a)))
    \<and> a_network (handleSubmit_answered a after token userId (Ok text)
          (fst (handleSubmit now later token a a))) =
        a_network (fst (handleSubmit now later token a a)))"
proof (intro conjI impI)
  assume h: "trim (input s) \<noteq> [] \<and> \<not> falsy (selectedFile s) \<and> \<not> falsy (conversationId s)"
  then obtain f cid where fc: "selectedFile s = Some f" "f \<noteq> []"
    "conversationId s = Some cid" "cid \<noteq> []"
    using truthy_cases by blast
  from h fc have eq: "handleSendMessage now s s =
     (s\<lparr>messages := messages s @
          [\<lparr>msg_id = NowId now, msg_role = User, content = input s, timestamp = Clock now\<rparr>],
        input := [], isLoading := True,
        network := network s @ [SendChatMessage (input s) f cid (embeddingProvider s)]\<rparr>, True)"
    by (simp add: handleSendMessage_accepted)
  show "snd (handleSendMessage now s s)"
    by (simp add: eq)
  show "selectedFile (handleSendMessage_resume after (Ok resp) (fst (handleSendMessage now s s))) = selectedFile s"
    by (simp add: eq handleSendMessage_resume_def Let_def split: option.splits)
  show "conversationId (handleSendMessage_resume after (Ok resp) (fst (handleSendMessage now s s))) = conversationId s"
    by (simp add: eq handleSendMessage_resume_def Let_def split: option.splits)
  show "messages (handleSendMessage_resume after (Ok resp) (fst (handleSendMessage now s s))) =
        messages s @
          [\<lparr>msg_id = NowId now, msg_role = User, content = input s, timestamp = Clock now\<rparr>,
           \<lparr>msg_id = ResponseId after, msg_role = Assistant, content = resp_response resp,
             timestamp = Clock after\<rparr>]"
    by (simp add: eq handleSendMessage_resume_def Let_def split: option.splits)
  show "embeddingProvider (handleSendMessage_resume after (Ok resp) (fst (handleSendMessage now s s))) =
        (case resp_embedding_provider resp of
           None \<Rightarrow> embeddingProvider s
         | Some p \<Rightarrow> if p = [] then embeddingProvider s else p)"
    by (simp add: eq handleSendMessage_resume_def Let_def split: option.splits)
  show "files (handleSendMessage_resume after (Ok resp) (fst (handleSendMessage now s s))) = files s"
    by (simp add: eq handleSendMessage_resume_def Let_def split: option.splits)
  show "selectedFileName (handleSendMessage_resume after (Ok resp) (fst (handleSendMessage now s s))) =
        selectedFileName s"
    by (simp add: eq handleSendMessage_resume_def Let_def split: option.splits)
  show "toasts (handleSendMessage_resume after (Ok resp) (fst (handleSendMessage now s s))) = toasts s"
    by (simp add: eq handleSendMessage_resume_def Let_def split: option.splits)
  show "navigations (handleSendMessage_resume after (Ok resp) (fst (handleSendMessage now s s))) =
        navigations s"
    by (simp add: eq handleSendMessage_resume_def Let_def split: option.splits)
  show "\<not> isLoading (handleSendMessage_resume after (Ok resp) (fst (handleSendMessage now s s)))"
    by (simp add: eq handleSendMessage_resume_def Let_def split: option.splits)
next
  assume h: "trim (message a) \<noteq> [] \<and> \<not> a_isLoading a \<and> \<not> falsy token
      \<and> \<not> falsy (currentConversationId a)"
  then obtain cid where cid: "currentConversationId a = Some cid" "cid \<noteq> []"
    using truthy_cases by blast
  from h cid have eq: "handleSubmit now later token a a =
     (a\<lparr>a_messages := a_messages a @
          [\<lparr>msg_id = NowId now, msg_role = User, content = message a, timestamp = Clock now\<rparr>],
        a_isLoading := True, message := [],
        a_network := a_network a @ [PostChat (message a) cid]\<rparr>, AwaitChat)"
    by (simp add: handleSubmit_chat)
  from h have keep: "\<not> falsy (currentConversationId a)"
    by simp
  show "snd (handleSubmit now later token a a) = AwaitChat"
    by (simp add: eq)
  show "currentConversationId (handleSubmit_answered a after token userId (Ok text)
          (fst (handleSubmit now later token a a))) = currentConversationId a"
    using keep by (simp add: eq handleSubmit_answered_def Let_def)
  show "a_messages (handleSubmit_answered a after token userId (Ok text)
          (fst (handleSubmit now later token a a))) =
        a_messages a @
          [\<lparr>msg_id = NowId now, msg_role = User, content = message a, timestamp = Clock now\<rparr>,
           \<lparr>msg_id = NowIdPlus after 1, msg_role = Assistant, content = text, timestamp = Clock after\<rparr>]"
    using keep by (simp add: eq handleSubmit_answered_def Let_def)
  show "\<not> a_isLoading (handleSubmit_answered a after token userId (Ok text)
          (fst (handleSubmit now later token a a)))"
    using keep by (simp add: eq handleSubmit_answered_def Let_def)
  show "a_network (handleSubmit_answered a after token userId (Ok text)
          (fst (handleSubmit now later token a a))) =
        a_network (fst (handleSubmit now later token a a))"
    using keep by (simp add: eq handleSubmit_answered_def Let_def)
qed

theorem successful_send_frame_witness:
  "conversationId (handleSendMessage_resume 2
      (Ok \<lparr>resp_response = ''42 rows'', resp_embedding_provider = Some ''openai''\<rparr>)
      (fst (handleSendMessage 1 page_A page_A))) = Some ''c1''
   \<and> embeddingProvider (handleSendMessage_resume 2
      (Ok \<lparr>resp_response = ''42 rows'', resp_embedding_provider = Some ''openai''\<rparr>)
      (fst (handleSendMessage 1 page_A page_A))) = ''openai''
   \<and> currentConversationId (handleSubmit_answered (page_0\<lparr>currentConversationId := Some ''c7''\<rparr>) 2
        (Some ''tok'') None (Ok ''on its way'')
        (fst (handleSubmit 1 1 (Some ''tok'') (page_0\<lparr>currentConversationId := Some ''c7''\<rparr>)
                (page_0\<lparr>currentConversationId := Some ''c7''\<rparr>)))) = Some ''c7''"
  using successful_send_frame
    [of page_A 1 2 "\<lparr>resp_response = ''42 rows'', resp_embedding_provider = Some ''openai''\<rparr>"
      "page_0\<lparr>currentConversationId := Some ''c7''\<rparr>" "Some ''tok''" 1 None "''on its way''"]
  by (simp add: page_0_def page_A_def falsy_def trim_page_0 trim_page_A)

end
